theory Spec2Isabelle
  imports Complex_Main
begin

section \<open>Flux (Kora Rent Guardian): Judge, Executioner and Scanner\<close>

text \<open>
  A shallow embedding of the library modules \<^verbatim>\<open>judge.ts\<close>,
  \<^verbatim>\<open>executioner.ts\<close> and \<^verbatim>\<open>scanner.ts\<close> (the reconciliation of
  the discovered accounts), with the parts of \<^verbatim>\<open>config.ts\<close>,
  \<^verbatim>\<open>solana.ts\<close> and \<^verbatim>\<open>demoSeeder.ts\<close> they need.

  Conventions of the embedding.
  \<^item> A JavaScript \<^verbatim>\<open>number\<close> that holds an amount of SOL, a timestamp or a
    number of days is a \<^typ>\<open>real\<close>: arithmetic and comparisons are exact, the
    rounding of IEEE doubles is not represented. Amounts in lamports are integers.
  \<^item> \<^verbatim>\<open>settings.minAgeDays\<close> is the one number that can be \<^verbatim>\<open>NaN\<close>
    (it is what \<^verbatim>\<open>parseInt\<close> returns), so it has a type of its own.
  \<^item> A \<^verbatim>\<open>Date\<close> is its \<^verbatim>\<open>getTime()\<close>, milliseconds since the epoch.
  \<^item> A template literal is the list of its pieces; the decimal formatting of a number
    (\<^verbatim>\<open>toFixed\<close>, \<^verbatim>\<open>String\<close>) is kept symbolic.
  \<^item> \<^verbatim>\<open>Date.now()\<close> is an input of every function that reads the clock.
\<close>

subsection \<open>Numbers, dates and template strings\<close>

type_synonym Date = real

datatype jsnumber = NaN | Finite real

datatype piece = Lit string | ToFixed real nat | ToString real

type_synonym template = "piece list"

text \<open>\<^verbatim>\<open>x || d\<close> on numbers: \<^verbatim>\<open>0\<close> and \<^verbatim>\<open>NaN\<close> are falsy.\<close>

definition or_default :: "jsnumber \<Rightarrow> real \<Rightarrow> real" where
  "or_default x d = (case x of NaN \<Rightarrow> d | Finite v \<Rightarrow> if v = 0 then d else v)"

subsection \<open>config.ts\<close>

definition TX_FEE_LAMPORTS :: int where
  "TX_FEE_LAMPORTS = 5000"

definition LAMPORTS_PER_SOL :: int where
  "LAMPORTS_PER_SOL = 1000000000"

subsection \<open>judge.ts: types and constants\<close>

datatype JudgmentStatus = ELIGIBLE | SKIP | PROTECTED | ACTIVE | WHITELISTED

datatype FailedCheck = PROFIT | USER_FUNDS | AGE | WHITELIST

record JudgmentResult =
  status :: JudgmentStatus
  reason :: template
  failedCheck :: "FailedCheck option"
  address :: string
  balance :: real
  potentialRecovery :: real

record AccountForJudgment =
  address :: string
  balance :: real
  rentExemptMin :: real
  lastActivity :: Date
  status :: string

record JudgmentSettings =
  minAgeDays :: jsnumber
  dryRunMode :: bool

definition DEFAULT_MIN_AGE_DAYS :: real where
  "DEFAULT_MIN_AGE_DAYS = 30"

definition TX_FEE_SOL :: real where
  "TX_FEE_SOL = real_of_int TX_FEE_LAMPORTS / real_of_int LAMPORTS_PER_SOL"

definition USER_FUND_TOLERANCE :: real where
  "USER_FUND_TOLERANCE = 101 / 100"

subsection \<open>judge.ts: judgeAccount\<close>

text \<open>
  The first argument is the value \<^verbatim>\<open>Date.now()\<close> returns when the age check
  reads it. The account is any record that has the fields of \<^verbatim>\<open>AccountForJudgment\<close>;
  the callers pass rows of the account table.
\<close>

definition judgeAccount ::
  "Date \<Rightarrow> 'a AccountForJudgment_scheme \<Rightarrow> JudgmentSettings \<Rightarrow> string list \<Rightarrow> JudgmentResult"
where
  "judgeAccount now account settings whitelist =
    (let address = AccountForJudgment.address account;
         balance = AccountForJudgment.balance account;
         rentExemptMin = AccountForJudgment.rentExemptMin account;
         lastActivity = AccountForJudgment.lastActivity account;
         potentialRecovery = max 0 (balance - TX_FEE_SOL)
     in
     if balance \<le> TX_FEE_SOL then
       \<lparr> JudgmentResult.status = SKIP,
         reason = [Lit ''Skipped: Balance ('', ToFixed balance 9,
                   Lit '' SOL) is less than transaction fee ('', ToString TX_FEE_SOL,
                   Lit '' SOL) - not profitable to reclaim''],
         failedCheck = Some PROFIT,
         address = address,
         balance = balance,
         potentialRecovery = 0 \<rparr>
     else if balance > rentExemptMin * USER_FUND_TOLERANCE then
       (let excessFunds = balance - rentExemptMin in
        \<lparr> JudgmentResult.status = PROTECTED,
          reason = [Lit ''Protected: Balance ('', ToFixed balance 6,
                    Lit '' SOL) exceeds rent minimum ('', ToFixed rentExemptMin 6,
                    Lit '' SOL) by '', ToFixed excessFunds 6,
                    Lit '' SOL - account contains user funds''],
          failedCheck = Some USER_FUNDS,
          address = address,
          balance = balance,
          potentialRecovery = potentialRecovery \<rparr>)
     else
       (let accountAgeMs = now - lastActivity;
            accountAgeDays = accountAgeMs / (1000 * 60 * 60 * 24);
            minAgeDays = or_default (JudgmentSettings.minAgeDays settings) DEFAULT_MIN_AGE_DAYS
        in
        if accountAgeDays < minAgeDays then
          (let daysRemaining = \<lceil>minAgeDays - accountAgeDays\<rceil> in
           \<lparr> JudgmentResult.status = ACTIVE,
             reason = [Lit ''Active: Account age ('', ToString (of_int \<lfloor>accountAgeDays\<rfloor>),
                       Lit '' days) is less than minimum ('', ToString minAgeDays,
                       Lit '' days) - wait '', ToString (of_int daysRemaining),
                       Lit '' more days''],
             failedCheck = Some AGE,
             address = address,
             balance = balance,
             potentialRecovery = potentialRecovery \<rparr>)
        else if address \<in> set whitelist then
          \<lparr> JudgmentResult.status = WHITELISTED,
            reason = [Lit ''Whitelisted: Account is explicitly protected by operator - will never be reclaimed''],
            failedCheck = Some WHITELIST,
            address = address,
            balance = balance,
            potentialRecovery = potentialRecovery \<rparr>
        else
          \<lparr> JudgmentResult.status = ELIGIBLE,
            reason = [Lit ''Eligible: Account passed all safety checks - '',
                      ToFixed accountAgeDays 0,
                      Lit '' days old, balance equals rent minimum, ready to reclaim '',
                      ToFixed potentialRecovery 6, Lit '' SOL''],
            failedCheck = None,
            address = address,
            balance = balance,
            potentialRecovery = potentialRecovery \<rparr>))"


subsection \<open>The store\<close>

text \<open>
  The Prisma client is a record of four tables, each a list of rows in the order
  \<^verbatim>\<open>findMany\<close> returns them. Row identifiers and the timestamp the store gives a log
  entry are left out. The store itself never fails: the model is sequential, and each
  \<^verbatim>\<open>update\<close> of an account follows a \<^verbatim>\<open>findUnique\<close> or
  \<^verbatim>\<open>findMany\<close> that returned the row, each \<^verbatim>\<open>create\<close> of an account a
  \<^verbatim>\<open>findUnique\<close> that returned \<^verbatim>\<open>null\<close>.
\<close>

record SponsoredAccount = AccountForJudgment +
  detectedAt :: Date

record WhitelistEntry =
  address :: string
  note_ :: "string option"

record ActivityLog =
  action :: string
  account :: string
  amount :: real
  mode :: string
  txSignature :: "string option"
  reason :: "template option"

record Store =
  sponsoredAccount :: "SponsoredAccount list"
  whitelist :: "WhitelistEntry list"
  settings :: "(string \<times> string) list"
  activityLog :: "ActivityLog list"

definition findUnique_sponsoredAccount :: "Store \<Rightarrow> string \<Rightarrow> SponsoredAccount option" where
  "findUnique_sponsoredAccount db addr =
     find (\<lambda>row. AccountForJudgment.address row = addr) (sponsoredAccount db)"

fun update_first :: "('r \<Rightarrow> bool) \<Rightarrow> ('r \<Rightarrow> 'r) \<Rightarrow> 'r list \<Rightarrow> 'r list" where
  "update_first p f [] = []"
| "update_first p f (row # rows) =
     (if p row then f row # rows else row # update_first p f rows)"

definition update_sponsoredAccount ::
  "Store \<Rightarrow> string \<Rightarrow> (SponsoredAccount \<Rightarrow> SponsoredAccount) \<Rightarrow> Store"
where
  "update_sponsoredAccount db addr f =
     db\<lparr>sponsoredAccount :=
          update_first (\<lambda>row. AccountForJudgment.address row = addr) f (sponsoredAccount db)\<rparr>"

definition updateMany_sponsoredAccount ::
  "Store \<Rightarrow> string \<Rightarrow> (SponsoredAccount \<Rightarrow> SponsoredAccount) \<Rightarrow> Store"
where
  "updateMany_sponsoredAccount db addr f =
     db\<lparr>sponsoredAccount :=
          map (\<lambda>row. if AccountForJudgment.address row = addr then f row else row)
            (sponsoredAccount db)\<rparr>"

definition create_sponsoredAccount :: "Store \<Rightarrow> SponsoredAccount \<Rightarrow> Store" where
  "create_sponsoredAccount db row = db\<lparr>sponsoredAccount := sponsoredAccount db @ [row]\<rparr>"

definition create_activityLog :: "Store \<Rightarrow> ActivityLog \<Rightarrow> Store" where
  "create_activityLog db entry = db\<lparr>activityLog := activityLog db @ [entry]\<rparr>"

definition findUnique_settings :: "Store \<Rightarrow> string \<Rightarrow> string option" where
  "findUnique_settings db k = map_of (settings db) k"

text \<open>
  \<open>upsert\<close> on the whitelist with \<^verbatim>\<open>update: { note }\<close>: a note that is
  \<^verbatim>\<open>undefined\<close> leaves the stored note of an existing entry as it is.
\<close>

definition upsert_whitelist :: "Store \<Rightarrow> string \<Rightarrow> string option \<Rightarrow> Store" where
  "upsert_whitelist db addr n =
     (if \<exists>e \<in> set (Store.whitelist db). WhitelistEntry.address e = addr
      then db\<lparr>Store.whitelist :=
                update_first (\<lambda>e. WhitelistEntry.address e = addr)
                  (\<lambda>e. case n of None \<Rightarrow> e | Some v \<Rightarrow> e\<lparr>note_ := Some v\<rparr>)
                  (Store.whitelist db)\<rparr>
      else db\<lparr>Store.whitelist :=
                Store.whitelist db @ [\<lparr> WhitelistEntry.address = addr, note_ = n \<rparr>]\<rparr>)"

subsection \<open>The world outside: configuration, clock and ledger gateway\<close>

text \<open>
  What a function throws is either an \<^verbatim>\<open>Error\<close> with its message or some other
  value.
\<close>

datatype thrown = Error string | NotAnError

definition errorMessage :: "thrown \<Rightarrow> string" where
  "errorMessage e = (case e of Error m \<Rightarrow> m | NotAnError \<Rightarrow> ''Unknown error'')"

record Transfer =
  fromPubkey :: string
  toPubkey :: string
  lamports :: int

record AccountInfo =
  lamports :: nat
  dataLength :: nat

text \<open>
  The environment fixes the configuration and the answers of the clock and of the RPC node.
  Every reading of the clock and every RPC call is made at the current tick of the world
  and advances it, so the environment may answer each of them differently; the theorems
  hold for every environment. A public key is its base58 string. The amounts the ledger
  reports are lamports.
  \<^item> \<open>operatorPrivateKey\<close>: \<^verbatim>\<open>process.env.OPERATOR_PRIVATE_KEY || null\<close>;
  \<^item> \<open>getConnection\<close>: what \<^verbatim>\<open>getConnection()\<close> throws, if it does;
  \<^item> \<open>keypairFromSecretKey\<close>: \<^verbatim>\<open>Keypair.fromSecretKey(bs58.decode(key))\<close>, the
    public key of the pair or what is thrown;
  \<^item> \<open>newPublicKey\<close>: what \<^verbatim>\<open>new PublicKey(address)\<close> throws, if it does.
\<close>

record Env =
  operatorPrivateKey :: "string option"
  rpcUrl :: string
  Date_now :: "nat \<Rightarrow> Date"
  getConnection :: "thrown option"
  keypairFromSecretKey :: "string \<Rightarrow> thrown + string"
  newPublicKey :: "string \<Rightarrow> thrown option"
  getBalance :: "nat \<Rightarrow> string \<Rightarrow> thrown + nat"
  sendAndConfirmTransaction :: "nat \<Rightarrow> Transfer \<Rightarrow> thrown + string"
  getAccountInfo :: "nat \<Rightarrow> string \<Rightarrow> thrown + AccountInfo option"
  getMinimumBalanceForRentExemption :: "nat \<Rightarrow> nat \<Rightarrow> thrown + nat"

text \<open>
  The world a function runs in and leaves behind: the store, the tick, and the transfers
  handed to \<^verbatim>\<open>sendAndConfirmTransaction\<close> so far (whether they were confirmed or
  not).
\<close>

record World =
  prisma :: Store
  tick :: nat
  submitted :: "Transfer list"

definition advance :: "World \<Rightarrow> World" where
  "advance w = w\<lparr>tick := Suc (tick w)\<rparr>"

subsection \<open>judge.ts: settings, batch judgment, whitelist\<close>

text \<open>
  \<^verbatim>\<open>parseInt(s, 10)\<close>: leading white space is skipped, a sign is read, then the
  longest run of decimal digits; no digit gives \<^verbatim>\<open>NaN\<close>. Only the white space of
  ASCII is recognised here.
\<close>

definition isWhiteSpace :: "char \<Rightarrow> bool" where
  "isWhiteSpace c = (c \<in> set [CHR 0x09, CHR 0x0A, CHR 0x0B, CHR 0x0C, CHR 0x0D, CHR 0x20])"

definition isDigit :: "char \<Rightarrow> bool" where
  "isDigit c = (c \<in> set ''0123456789'')"

definition digitValue :: "char \<Rightarrow> nat" where
  "digitValue c = of_char c - 48"

definition parseInt :: "string \<Rightarrow> jsnumber" where
  "parseInt s =
    (let s1 = dropWhile isWhiteSpace s;
         negative = (case s1 of [] \<Rightarrow> False | c # _ \<Rightarrow> c = CHR ''-'');
         s2 = (case s1 of [] \<Rightarrow> [] | c # r \<Rightarrow> if c = CHR ''-'' \<or> c = CHR ''+'' then r else s1);
         z = takeWhile isDigit s2;
         mathInt = foldl (\<lambda>n c. 10 * n + digitValue c) 0 z
     in if z = [] then NaN
        else Finite (if negative then - real mathInt else real mathInt))"

definition getJudgmentSettings :: "Store \<Rightarrow> JudgmentSettings" where
  "getJudgmentSettings db =
    (let minAgeSetting = findUnique_settings db ''min_age_days'';
         dryRunSetting = findUnique_settings db ''dry_run_mode''
     in \<lparr> minAgeDays = (case minAgeSetting of
                           Some v \<Rightarrow> parseInt v
                         | None \<Rightarrow> Finite DEFAULT_MIN_AGE_DAYS),
          dryRunMode = (case dryRunSetting of
                           Some v \<Rightarrow> v = ''true''
                         | None \<Rightarrow> True) \<rparr>)"

text \<open>A \<^verbatim>\<open>JudgmentStatus\<close> is the string of its name.\<close>

fun JudgmentStatus_string :: "JudgmentStatus \<Rightarrow> string" where
  "JudgmentStatus_string ELIGIBLE = ''ELIGIBLE''"
| "JudgmentStatus_string SKIP = ''SKIP''"
| "JudgmentStatus_string PROTECTED = ''PROTECTED''"
| "JudgmentStatus_string ACTIVE = ''ACTIVE''"
| "JudgmentStatus_string WHITELISTED = ''WHITELISTED''"

record JudgeAllResult =
  total :: nat
  eligible :: nat
  protected :: nat
  active :: nat
  skipped :: nat
  whitelisted :: nat

text \<open>The body of the loop of \<open>judgeAllAccounts\<close>.\<close>

definition judgeAllAccounts_step ::
  "Env \<Rightarrow> JudgmentSettings \<Rightarrow> string list \<Rightarrow> SponsoredAccount
     \<Rightarrow> JudgeAllResult \<times> World \<Rightarrow> JudgeAllResult \<times> World"
where
  "judgeAllAccounts_step env sett wl acct rw =
    (let results = fst rw; w = snd rw;
         judgment = judgeAccount (Date_now env (tick w)) acct sett wl;
         w1 = advance w;
         w2 = w1\<lparr>prisma := update_sponsoredAccount (prisma w1) (AccountForJudgment.address acct)
                (\<lambda>row. row\<lparr>AccountForJudgment.status :=
                   JudgmentStatus_string (JudgmentResult.status judgment)\<rparr>)\<rparr>;
         results' = (case JudgmentResult.status judgment of
                       ELIGIBLE \<Rightarrow> results\<lparr>eligible := eligible results + 1\<rparr>
                     | PROTECTED \<Rightarrow> results\<lparr>protected := protected results + 1\<rparr>
                     | ACTIVE \<Rightarrow> results\<lparr>active := active results + 1\<rparr>
                     | SKIP \<Rightarrow> results\<lparr>skipped := skipped results + 1\<rparr>
                     | WHITELISTED \<Rightarrow> results\<lparr>whitelisted := whitelisted results + 1\<rparr>)
     in (results', w2))"

definition judgeAllAccounts :: "Env \<Rightarrow> World \<Rightarrow> JudgeAllResult \<times> World" where
  "judgeAllAccounts env w =
    (let settings = getJudgmentSettings (prisma w);
         whitelistEntries = Store.whitelist (prisma w);
         wl = map WhitelistEntry.address whitelistEntries;
         accounts = filter (\<lambda>row. AccountForJudgment.status row \<noteq> ''RECLAIMED'')
                      (sponsoredAccount (prisma w));
         results = \<lparr> total = length accounts, eligible = 0, protected = 0, active = 0,
                     skipped = 0, whitelisted = 0 \<rparr>
     in fold (judgeAllAccounts_step env settings wl) accounts (results, w))"

text \<open>
  \<open>getEligibleAccounts\<close> judges the rows one after the other and changes nothing in the
  store; the world it returns differs in the tick only.
\<close>

fun getEligibleAccounts_loop ::
  "Env \<Rightarrow> JudgmentSettings \<Rightarrow> string list \<Rightarrow> SponsoredAccount list
     \<Rightarrow> JudgmentResult list \<times> World \<Rightarrow> JudgmentResult list \<times> World"
where
  "getEligibleAccounts_loop env sett wl [] ew = ew"
| "getEligibleAccounts_loop env sett wl (acct # accts) (found, w) =
    (let judgment = judgeAccount (Date_now env (tick w)) acct sett wl
     in getEligibleAccounts_loop env sett wl accts
          (if JudgmentResult.status judgment = ELIGIBLE then found @ [judgment] else found,
           advance w))"

definition getEligibleAccounts :: "Env \<Rightarrow> World \<Rightarrow> JudgmentResult list \<times> World" where
  "getEligibleAccounts env w =
    (let settings = getJudgmentSettings (prisma w);
         whitelistEntries = Store.whitelist (prisma w);
         wl = map WhitelistEntry.address whitelistEntries;
         accounts = filter (\<lambda>row. AccountForJudgment.status row \<noteq> ''RECLAIMED'')
                      (sponsoredAccount (prisma w))
     in getEligibleAccounts_loop env settings wl accounts ([], w))"

definition addToWhitelist :: "World \<Rightarrow> string \<Rightarrow> string option \<Rightarrow> World" where
  "addToWhitelist w addr n =
    (let db1 = upsert_whitelist (prisma w) addr n;
         db2 = updateMany_sponsoredAccount db1 addr
                 (\<lambda>row. row\<lparr>AccountForJudgment.status := ''WHITELISTED''\<rparr>)
     in w\<lparr>prisma := db2\<rparr>)"

subsection \<open>solana.ts: getExplorerUrl\<close>

fun string_includes :: "string \<Rightarrow> string \<Rightarrow> bool" where
  "string_includes [] sub = (sub = [])"
| "string_includes (c # cs) sub = (take (length sub) (c # cs) = sub \<or> string_includes cs sub)"

definition getExplorerUrl :: "Env \<Rightarrow> string \<Rightarrow> string \<Rightarrow> string" where
  "getExplorerUrl env sig ty =
    (let baseUrl = ''https://explorer.solana.com'';
         cluster = (if string_includes (rpcUrl env) ''mainnet'' then [] else ''?cluster=devnet'')
     in baseUrl @ ''/'' @ ty @ ''/'' @ sig @ cluster)"

subsection \<open>executioner.ts: reclaimAccount\<close>

datatype Mode = REAL | SIMULATION

record ReclaimResult =
  success :: bool
  address :: string
  mode :: Mode
  amount :: real
  txSignature :: "string option"
  explorerUrl :: "string option"
  message :: template
  error :: "string option"

record BatchReclaimResult =
  total :: nat
  successful :: nat
  failed :: nat
  totalReclaimed :: real
  mode :: Mode
  results :: "ReclaimResult list"

text \<open>
  The body of the \<^verbatim>\<open>try\<close> block: \<open>Inr\<close> is a \<^verbatim>\<open>return\<close>, \<open>Inl\<close> is what
  was thrown, each with the world at that moment. The clock is read for the Judge at the
  tick of the call.
\<close>

definition reclaimAccount_try ::
  "Env \<Rightarrow> World \<Rightarrow> string \<Rightarrow> bool \<Rightarrow> thrown \<times> World + ReclaimResult \<times> World"
where
  "reclaimAccount_try env w addr dryRun =
    (case findUnique_sponsoredAccount (prisma w) addr of
       None \<Rightarrow>
         Inr (\<lparr> ReclaimResult.success = False,
                address = addr,
                mode = (if dryRun then SIMULATION else REAL),
                amount = 0,
                txSignature = None,
                explorerUrl = None,
                message = [Lit ''Account not found in database''],
                error = Some ''ACCOUNT_NOT_FOUND'' \<rparr>, w)
     | Some acct \<Rightarrow>
        (let settings = getJudgmentSettings (prisma w);
             whitelistEntries = Store.whitelist (prisma w);
             wl = map WhitelistEntry.address whitelistEntries;
             judgment = judgeAccount (Date_now env (tick w)) acct settings wl;
             w1 = advance w
         in
         if JudgmentResult.status judgment \<noteq> ELIGIBLE then
           Inr (\<lparr> ReclaimResult.success = False,
                  address = addr,
                  mode = (if dryRun then SIMULATION else REAL),
                  amount = 0,
                  txSignature = None,
                  explorerUrl = None,
                  message = Lit ''Cannot reclaim: '' # JudgmentResult.reason judgment,
                  error = Some (JudgmentStatus_string (JudgmentResult.status judgment)) \<rparr>,
                w1\<lparr>prisma := create_activityLog (prisma w1)
                   \<lparr> ActivityLog.action = ''SKIP'',
                     account = addr,
                     amount = AccountForJudgment.balance acct,
                     mode = (if dryRun then ''SIMULATION'' else ''REAL''),
                     txSignature = None,
                     reason = Some (JudgmentResult.reason judgment) \<rparr>\<rparr>)
         else if dryRun then
           Inr (\<lparr> ReclaimResult.success = True,
                  address = addr,
                  mode = SIMULATION,
                  amount = JudgmentResult.potentialRecovery judgment,
                  txSignature = None,
                  explorerUrl = None,
                  message = [Lit ''Simulation Success: Would reclaim '',
                             ToFixed (JudgmentResult.potentialRecovery judgment) 6,
                             Lit '' SOL from '', Lit addr],
                  error = None \<rparr>,
                w1\<lparr>prisma := create_activityLog (prisma w1)
                   \<lparr> ActivityLog.action = ''RECLAIM'',
                     account = addr,
                     amount = JudgmentResult.potentialRecovery judgment,
                     mode = ''SIMULATION'',
                     txSignature = None,
                     reason = Some [Lit ''Simulation: Would reclaim '',
                                    ToFixed (JudgmentResult.potentialRecovery judgment) 6,
                                    Lit '' SOL''] \<rparr>\<rparr>)
         else
          (case operatorPrivateKey env of
             None \<Rightarrow>
               Inr (\<lparr> ReclaimResult.success = False,
                      address = addr,
                      mode = SIMULATION,
                      amount = 0,
                      txSignature = None,
                      explorerUrl = None,
                      message = [Lit ''Cannot execute real transaction: OPERATOR_PRIVATE_KEY not configured''],
                      error = Some ''NO_PRIVATE_KEY'' \<rparr>, w1)
           | Some key \<Rightarrow>
          (case getConnection env of Some e \<Rightarrow> Inl (e, w1) | None \<Rightarrow>
          (case keypairFromSecretKey env key of Inl e \<Rightarrow> Inl (e, w1) | Inr operatorPubkey \<Rightarrow>
          (case newPublicKey env addr of Some e \<Rightarrow> Inl (e, w1) | None \<Rightarrow>
          (case getBalance env (tick w1) addr of Inl e \<Rightarrow> Inl (e, advance w1)
           | Inr balanceLamports \<Rightarrow>
            (let w2 = advance w1 in
             if balanceLamports = 0 then
               Inr (\<lparr> ReclaimResult.success = True,
                      address = addr,
                      mode = REAL,
                      amount = 0,
                      txSignature = None,
                      explorerUrl = None,
                      message = [Lit ''Account already empty - marked as reclaimed''],
                      error = None \<rparr>,
                    w2\<lparr>prisma := update_sponsoredAccount (prisma w2) addr
                       (\<lambda>row. row\<lparr>AccountForJudgment.status := ''RECLAIMED'',
                                    AccountForJudgment.balance := 0\<rparr>)\<rparr>)
             else
              (let transferAmount = int balanceLamports - TX_FEE_LAMPORTS in
               if transferAmount \<le> 0 then
                 Inr (\<lparr> ReclaimResult.success = False,
                        address = addr,
                        mode = REAL,
                        amount = 0,
                        txSignature = None,
                        explorerUrl = None,
                        message = [Lit ''Balance too low to cover transaction fee''],
                        error = Some ''INSUFFICIENT_BALANCE'' \<rparr>, w2)
               else
                (let transaction = \<lparr> fromPubkey = addr, toPubkey = operatorPubkey,
                                     Transfer.lamports = transferAmount \<rparr>;
                     w3 = (advance w2)\<lparr>submitted := submitted w2 @ [transaction]\<rparr>
                 in
                 case sendAndConfirmTransaction env (tick w2) transaction of
                   Inl e \<Rightarrow> Inl (e, w3)
                 | Inr txSig \<Rightarrow>
                    (let reclaimedAmount = real_of_int transferAmount / real_of_int LAMPORTS_PER_SOL;
                         now = Date_now env (tick w3);
                         w4 = advance w3;
                         db1 = update_sponsoredAccount (prisma w4) addr
                                 (\<lambda>row. row\<lparr>AccountForJudgment.status := ''RECLAIMED'',
                                              AccountForJudgment.balance := 0,
                                              lastActivity := now\<rparr>);
                         db2 = create_activityLog db1
                                 \<lparr> ActivityLog.action = ''RECLAIM'',
                                   account = addr,
                                   amount = reclaimedAmount,
                                   mode = ''REAL'',
                                   txSignature = Some txSig,
                                   reason = Some [Lit ''Successfully reclaimed '',
                                                  ToFixed reclaimedAmount 6, Lit '' SOL''] \<rparr>;
                         url = getExplorerUrl env txSig ''tx''
                     in Inr (\<lparr> ReclaimResult.success = True,
                               address = addr,
                               mode = REAL,
                               amount = reclaimedAmount,
                               txSignature = Some txSig,
                               explorerUrl = Some url,
                               message = [Lit ''Success: Reclaimed '', ToFixed reclaimedAmount 6,
                                          Lit '' SOL from '', Lit addr],
                               error = None \<rparr>,
                             w4\<lparr>prisma := db2\<rparr>))))))))))))"

text \<open>The whole function: the \<^verbatim>\<open>catch\<close> block logs what was thrown and returns a failure.\<close>

definition reclaimAccount :: "Env \<Rightarrow> World \<Rightarrow> string \<Rightarrow> bool \<Rightarrow> ReclaimResult \<times> World" where
  "reclaimAccount env w addr dryRun =
    (case reclaimAccount_try env w addr dryRun of
       Inr rw \<Rightarrow> rw
     | Inl (e, w') \<Rightarrow>
        (let msg = errorMessage e
         in (\<lparr> ReclaimResult.success = False,
                address = addr,
                mode = (if dryRun then SIMULATION else REAL),
                amount = 0,
                txSignature = None,
                explorerUrl = None,
                message = [Lit ''Failed to reclaim: '', Lit msg],
                error = Some msg \<rparr>,
             w'\<lparr>prisma := create_activityLog (prisma w')
                \<lparr> ActivityLog.action = ''SKIP'',
                  account = addr,
                  amount = 0,
                  mode = (if dryRun then ''SIMULATION'' else ''REAL''),
                  txSignature = None,
                  reason = Some [Lit ''Error: '', Lit msg] \<rparr>\<rparr>)))"

subsection \<open>executioner.ts: reclaimAllEligible\<close>

text \<open>
  The body of the loop, and the loop over the rows whose stored status is \<open>ELIGIBLE\<close>,
  in the order of the table. The pause between two real transfers only lets time pass,
  which the clock of the environment covers.
\<close>

definition reclaimAllEligible_step ::
  "Env \<Rightarrow> bool \<Rightarrow> SponsoredAccount \<Rightarrow> BatchReclaimResult \<times> World
     \<Rightarrow> BatchReclaimResult \<times> World"
where
  "reclaimAllEligible_step env dryRun acct bw =
    (let rw = reclaimAccount env (snd bw) (AccountForJudgment.address acct) dryRun;
         result = fst rw;
         b = (fst bw)\<lparr>results := results (fst bw) @ [result]\<rparr>
     in (if ReclaimResult.success result
         then b\<lparr>successful := successful b + 1,
                totalReclaimed := totalReclaimed b + ReclaimResult.amount result\<rparr>
         else b\<lparr>failed := failed b + 1\<rparr>,
         snd rw))"

definition reclaimAllEligible :: "Env \<Rightarrow> World \<Rightarrow> bool \<Rightarrow> BatchReclaimResult \<times> World" where
  "reclaimAllEligible env w dryRun =
    (let eligibleAccounts = filter (\<lambda>row. AccountForJudgment.status row = ''ELIGIBLE'')
                              (sponsoredAccount (prisma w))
     in fold (reclaimAllEligible_step env dryRun) eligibleAccounts
          (\<lparr> BatchReclaimResult.total = length eligibleAccounts,
             successful = 0,
             failed = 0,
             totalReclaimed = 0,
             mode = (if dryRun then SIMULATION else REAL),
             results = [] \<rparr>, w))"

subsection \<open>scanner.ts: reconciliation of the discovered accounts\<close>

record DiscoveredAccount =
  address :: string
  balance :: real
  rentExemptMin :: real
  createdAt :: Date

record CurrentState =
  balance :: real
  rentExemptMin :: real
  exists :: bool

definition DEFAULT_RENT_EXEMPT_MINIMUM :: real where
  "DEFAULT_RENT_EXEMPT_MINIMUM = 89088 / 100000000"

text \<open>
  \<open>getAccountCurrentState\<close> catches whatever the gateway throws and then reports a
  closed account. The connection it uses is the one the scan has opened before.
\<close>

definition getAccountCurrentState :: "Env \<Rightarrow> World \<Rightarrow> string \<Rightarrow> CurrentState \<times> World" where
  "getAccountCurrentState env w addr =
    (let closed = \<lparr> CurrentState.balance = 0,
                    rentExemptMin = DEFAULT_RENT_EXEMPT_MINIMUM,
                    exists = False \<rparr>
     in
     case newPublicKey env addr of
       Some e \<Rightarrow> (closed, w)
     | None \<Rightarrow>
        (case getAccountInfo env (tick w) addr of
           Inl e \<Rightarrow> (closed, advance w)
         | Inr None \<Rightarrow> (closed, advance w)
         | Inr (Some accountInfo) \<Rightarrow>
            (case getMinimumBalanceForRentExemption env (tick (advance w))
                    (dataLength accountInfo) of
               Inl e \<Rightarrow> (closed, advance (advance w))
             | Inr rentExempt \<Rightarrow>
                (\<lparr> CurrentState.balance =
                     real (AccountInfo.lamports accountInfo) / real_of_int LAMPORTS_PER_SOL,
                   rentExemptMin = real rentExempt / real_of_int LAMPORTS_PER_SOL,
                   exists = True \<rparr>,
                 advance (advance w)))))"

definition determineInitialStatus :: "CurrentState \<Rightarrow> string" where
  "determineInitialStatus state =
    (if \<not> exists state \<or> CurrentState.balance state = 0 then ''RECLAIMED''
     else if CurrentState.balance state > CurrentState.rentExemptMin state * (15 / 10)
       then ''PROTECTED''
     else ''ACTIVE'')"

text \<open>
  Step 3 of \<open>scanForSponsoredAccounts\<close>: the body of the loop over the discovered
  accounts, with the counters \<open>newCount\<close> and \<open>updatedCount\<close>, and the loop.
\<close>

definition reconcile ::
  "Env \<Rightarrow> DiscoveredAccount \<Rightarrow> (nat \<times> nat) \<times> World \<Rightarrow> (nat \<times> nat) \<times> World"
where
  "reconcile env acct cw =
    (let newCount = fst (fst cw); updatedCount = snd (fst cw);
         sw = getAccountCurrentState env (snd cw) (DiscoveredAccount.address acct);
         currentState = fst sw; w1 = snd sw;
         existing = findUnique_sponsoredAccount (prisma w1) (DiscoveredAccount.address acct);
         now = Date_now env (tick w1);
         w2 = advance w1
     in
     case existing of
       Some ex \<Rightarrow>
         ((newCount, updatedCount + 1),
          w2\<lparr>prisma := update_sponsoredAccount (prisma w2) (DiscoveredAccount.address acct)
             (\<lambda>row. row\<lparr>AccountForJudgment.balance := CurrentState.balance currentState,
                          lastActivity := now,
                          AccountForJudgment.status :=
                            (if CurrentState.balance currentState = 0 then ''RECLAIMED''
                             else AccountForJudgment.status ex)\<rparr>)\<rparr>)
     | None \<Rightarrow>
         ((newCount + 1, updatedCount),
          w2\<lparr>prisma := create_sponsoredAccount (prisma w2)
             \<lparr> AccountForJudgment.address = DiscoveredAccount.address acct,
               balance = CurrentState.balance currentState,
               rentExemptMin = CurrentState.rentExemptMin currentState,
               lastActivity = createdAt acct,
               status = determineInitialStatus currentState,
               detectedAt = now \<rparr>\<rparr>))"

definition reconcileAll ::
  "Env \<Rightarrow> DiscoveredAccount list \<Rightarrow> World \<Rightarrow> (nat \<times> nat) \<times> World"
where
  "reconcileAll env discoveredAccounts w = fold (reconcile env) discoveredAccounts ((0, 0), w)"

subsection \<open>demoSeeder.ts: seedDemoData\<close>

definition RENT_MINIMUM :: real where
  "RENT_MINIMUM = 203928 / 100000000"

text \<open>\<open>daysAgo\<close>, given what \<^verbatim>\<open>Date.now()\<close> returns when it is called.\<close>

definition daysAgo :: "Date \<Rightarrow> real \<Rightarrow> Date" where
  "daysAgo now days = now - days * 24 * 60 * 60 * 1000"

text \<open>
  The account table is emptied, the fourteen demo rows are created and one log entry is
  appended. Each of the 28 calls of \<open>daysAgo\<close> reads the clock, in the order of the
  source text.
\<close>

definition seedDemoData :: "Env \<Rightarrow> World \<Rightarrow> nat \<times> World" where
  "seedDemoData env w =
    (let clock = (\<lambda>k. Date_now env (tick w + k));
         db1 = (prisma w)\<lparr>sponsoredAccount := []\<rparr>;
         db2 = db1\<lparr>sponsoredAccount := sponsoredAccount db1 @
       [
         \<lparr> AccountForJudgment.address = ''8xKVzxxxxxxxxxxxxxxxxxxxxxxxxxxxxxxWhale1'',
           balance = 85 / 100,
           rentExemptMin = RENT_MINIMUM,
           lastActivity = daysAgo (clock 0) 92,
           status = ''ELIGIBLE'',
           detectedAt = daysAgo (clock 1) 120 \<rparr>,
         \<lparr> AccountForJudgment.address = ''5mTRxxxxxxxxxxxxxxxxxxxxxxxxxxxxxxMidTr1'',
           balance = 52 / 1000,
           rentExemptMin = RENT_MINIMUM,
           lastActivity = daysAgo (clock 2) 48,
           status = ''ELIGIBLE'',
           detectedAt = daysAgo (clock 3) 65 \<rparr>,
         \<lparr> AccountForJudgment.address = ''7kPQxxxxxxxxxxxxxxxxxxxxxxxxxxxxxxMidTr2'',
           balance = 48 / 1000,
           rentExemptMin = RENT_MINIMUM,
           lastActivity = daysAgo (clock 4) 55,
           status = ''ELIGIBLE'',
           detectedAt = daysAgo (clock 5) 70 \<rparr>,
         \<lparr> AccountForJudgment.address = ''2dSTxxxxxxxxxxxxxxxxxxxxxxxxxxxxxxDust01'',
           balance = RENT_MINIMUM,
           rentExemptMin = RENT_MINIMUM,
           lastActivity = daysAgo (clock 6) 45,
           status = ''ELIGIBLE'',
           detectedAt = daysAgo (clock 7) 60 \<rparr>,
         \<lparr> AccountForJudgment.address = ''3fGHxxxxxxxxxxxxxxxxxxxxxxxxxxxxxxDust02'',
           balance = RENT_MINIMUM,
           rentExemptMin = RENT_MINIMUM,
           lastActivity = daysAgo (clock 8) 67,
           status = ''ELIGIBLE'',
           detectedAt = daysAgo (clock 9) 85 \<rparr>,
         \<lparr> AccountForJudgment.address = ''4jKLxxxxxxxxxxxxxxxxxxxxxxxxxxxxxxDust03'',
           balance = RENT_MINIMUM,
           rentExemptMin = RENT_MINIMUM,
           lastActivity = daysAgo (clock 10) 52,
           status = ''ELIGIBLE'',
           detectedAt = daysAgo (clock 11) 72 \<rparr>,
         \<lparr> AccountForJudgment.address = ''6nPRxxxxxxxxxxxxxxxxxxxxxxxxxxxxxxDust04'',
           balance = RENT_MINIMUM,
           rentExemptMin = RENT_MINIMUM,
           lastActivity = daysAgo (clock 12) 38,
           status = ''ELIGIBLE'',
           detectedAt = daysAgo (clock 13) 50 \<rparr>,
         \<lparr> AccountForJudgment.address = ''9qVXxxxxxxxxxxxxxxxxxxxxxxxxxxxxxxDust05'',
           balance = RENT_MINIMUM,
           rentExemptMin = RENT_MINIMUM,
           lastActivity = daysAgo (clock 14) 72,
           status = ''ELIGIBLE'',
           detectedAt = daysAgo (clock 15) 95 \<rparr>,
         \<lparr> AccountForJudgment.address = ''1aWYxxxxxxxxxxxxxxxxxxxxxxxxxxxxxxDust06'',
           balance = RENT_MINIMUM,
           rentExemptMin = RENT_MINIMUM,
           lastActivity = daysAgo (clock 16) 41,
           status = ''ELIGIBLE'',
           detectedAt = daysAgo (clock 17) 55 \<rparr>,
         \<lparr> AccountForJudgment.address = ''PrT1xxxxxxxxxxxxxxxxxxxxxxxxxxxxxxProt01'',
           balance = 125 / 100,
           rentExemptMin = RENT_MINIMUM,
           lastActivity = daysAgo (clock 18) 3,
           status = ''PROTECTED'',
           detectedAt = daysAgo (clock 19) 28 \<rparr>,
         \<lparr> AccountForJudgment.address = ''PrT2xxxxxxxxxxxxxxxxxxxxxxxxxxxxxxProt02'',
           balance = 42 / 100,
           rentExemptMin = RENT_MINIMUM,
           lastActivity = daysAgo (clock 20) 7,
           status = ''PROTECTED'',
           detectedAt = daysAgo (clock 21) 35 \<rparr>,
         \<lparr> AccountForJudgment.address = ''AcT1xxxxxxxxxxxxxxxxxxxxxxxxxxxxxxActv01'',
           balance = RENT_MINIMUM,
           rentExemptMin = RENT_MINIMUM,
           lastActivity = daysAgo (clock 22) 12,
           status = ''ACTIVE'',
           detectedAt = daysAgo (clock 23) 18 \<rparr>,
         \<lparr> AccountForJudgment.address = ''AcT2xxxxxxxxxxxxxxxxxxxxxxxxxxxxxxActv02'',
           balance = RENT_MINIMUM,
           rentExemptMin = RENT_MINIMUM,
           lastActivity = daysAgo (clock 24) 8,
           status = ''ACTIVE'',
           detectedAt = daysAgo (clock 25) 14 \<rparr>,
         \<lparr> AccountForJudgment.address = ''RcL1xxxxxxxxxxxxxxxxxxxxxxxxxxxxxxRclm01'',
           balance = 0,
           rentExemptMin = RENT_MINIMUM,
           lastActivity = daysAgo (clock 26) 95,
           status = ''RECLAIMED'',
           detectedAt = daysAgo (clock 27) 140 \<rparr>
       ]\<rparr>;
         db3 = create_activityLog db2
                 \<lparr> ActivityLog.action = ''SCAN'',
                   account = ''-'',
                   amount = 0,
                   mode = ''SIMULATION'',
                   txSignature = None,
                   reason = Some [Lit ''Demo data restored - 14 sponsored accounts loaded for Simulation Mode''] \<rparr>
     in (14, w\<lparr>prisma := db3, tick := tick w + 28\<rparr>))"

subsection \<open>Notions used in the statements\<close>

text \<open>
  The verdict \<open>reclaimAccount\<close> computes in its step 1 for the row it has found: the
  Judge run at the clock reading of the call, with the settings and the whitelist of the
  store.
\<close>

definition revalidate :: "Env \<Rightarrow> World \<Rightarrow> SponsoredAccount \<Rightarrow> JudgmentResult" where
  "revalidate env w acct =
     judgeAccount (Date_now env (tick w)) acct (getJudgmentSettings (prisma w))
       (map WhitelistEntry.address (Store.whitelist (prisma w)))"

text \<open>A table is well formed when no two rows have the same address (the unique key).\<close>

definition unique_addresses :: "Store \<Rightarrow> bool" where
  "unique_addresses db = distinct (map AccountForJudgment.address (sponsoredAccount db))"

text \<open>
  The verdicts of a batch in simulation mode: the rows are judged one after the other,
  each at the next tick, with the settings and the whitelist of the store.
\<close>

fun verdicts_from ::
  "Env \<Rightarrow> JudgmentSettings \<Rightarrow> string list \<Rightarrow> nat \<Rightarrow> SponsoredAccount list \<Rightarrow> JudgmentResult list"
where
  "verdicts_from env sett wl t [] = []"
| "verdicts_from env sett wl t (acct # accts) =
     judgeAccount (Date_now env t) acct sett wl # verdicts_from env sett wl (Suc t) accts"

definition eligibleRows :: "World \<Rightarrow> SponsoredAccount list" where
  "eligibleRows w =
     filter (\<lambda>row. AccountForJudgment.status row = ''ELIGIBLE'') (sponsoredAccount (prisma w))"

definition batchVerdicts :: "Env \<Rightarrow> World \<Rightarrow> JudgmentResult list" where
  "batchVerdicts env w =
     verdicts_from env (getJudgmentSettings (prisma w))
       (map WhitelistEntry.address (Store.whitelist (prisma w))) (tick w) (eligibleRows w)"

text \<open>
  One account table keeps the \<open>RECLAIMED\<close> rows of another: it has a row at every
  position of the other, with the same address, and with status \<open>RECLAIMED\<close> wherever
  the other has it.
\<close>

definition keeps_reclaimed :: "SponsoredAccount list \<Rightarrow> SponsoredAccount list \<Rightarrow> bool" where
  "keeps_reclaimed rows rows' =
     (length rows \<le> length rows' \<and>
      (\<forall>i < length rows.
         AccountForJudgment.address (rows' ! i) = AccountForJudgment.address (rows ! i) \<and>
         (AccountForJudgment.status (rows ! i) = ''RECLAIMED'' \<longrightarrow>
          AccountForJudgment.status (rows' ! i) = ''RECLAIMED'')))"

text \<open>
  What the Scanner observes for a discovered account: the state
  \<open>getAccountCurrentState\<close> reports, and the clock reading that follows it.
\<close>

definition observedState :: "Env \<Rightarrow> World \<Rightarrow> DiscoveredAccount \<Rightarrow> CurrentState" where
  "observedState env w d = fst (getAccountCurrentState env w (DiscoveredAccount.address d))"

definition observedAt :: "Env \<Rightarrow> World \<Rightarrow> DiscoveredAccount \<Rightarrow> Date" where
  "observedAt env w d =
     Date_now env (tick (snd (getAccountCurrentState env w (DiscoveredAccount.address d))))"

subsection \<open>web3.js: the constructor of PublicKey\<close>

text \<open>
  \<^verbatim>\<open>new PublicKey(s)\<close> decodes the string as base58 and accepts it when it gives 32
  bytes: a character outside the alphabet makes \<^verbatim>\<open>bs58.decode\<close> throw, another
  length makes the constructor throw. The decoded bytes are one zero byte for each leading
  \<^verbatim>\<open>1\<close>, followed by the bytes of the number the digits denote. The concrete
  environments below answer with this function.
\<close>

definition base58_alphabet :: string where
  "base58_alphabet = ''123456789ABCDEFGHJKLMNPQRSTUVWXYZabcdefghijkmnopqrstuvwxyz''"

fun base58_index :: "nat \<Rightarrow> char \<Rightarrow> string \<Rightarrow> nat option" where
  "base58_index i c [] = None"
| "base58_index i c (x # xs) = (if c = x then Some i else base58_index (i + 1) c xs)"

definition base58_digits :: "string \<Rightarrow> nat option list" where
  "base58_digits s = map (\<lambda>c. base58_index 0 c base58_alphabet) s"

fun byte_length :: "nat \<Rightarrow> nat" where
  "byte_length n = (if n = 0 then 0 else Suc (byte_length (n div 256)))"

declare byte_length.simps [simp del]

definition bs58_decode_length :: "string \<Rightarrow> nat option" where
  "bs58_decode_length s =
     (if None \<in> set (base58_digits s) then None
      else Some (length (takeWhile (\<lambda>c. c = CHR ''1'') s)
                 + byte_length (foldl (\<lambda>acc d. 58 * acc + the d) 0 (base58_digits s))))"

definition new_PublicKey :: "string \<Rightarrow> thrown option" where
  "new_PublicKey s =
     (case bs58_decode_length s of
        None \<Rightarrow> Some (Error ''Non-base58 character'')
      | Some l \<Rightarrow> if l = 32 then None else Some (Error ''Invalid public key input''))"

subsection \<open>Concrete environments and concrete worlds\<close>

text \<open>
  An installation in mock mode (no operator key) whose RPC node cannot be reached, a clock
  that advances by one millisecond per reading, an empty store, and the store the demo
  seeder leaves behind. The addresses of the demo rows are not public keys.
\<close>

definition mockEnv :: Env where
  "mockEnv =
    \<lparr> operatorPrivateKey = None,
      rpcUrl = ''https://api.devnet.solana.com'',
      Date_now = (\<lambda>n. 1700000000000 + real n),
      getConnection = None,
      keypairFromSecretKey = (\<lambda>k. Inl (Error ''Non-base58 character'')),
      newPublicKey = new_PublicKey,
      getBalance = (\<lambda>n a. Inl (Error ''fetch failed'')),
      sendAndConfirmTransaction = (\<lambda>n t. Inl (Error ''fetch failed'')),
      getAccountInfo = (\<lambda>n a. Inl (Error ''fetch failed'')),
      getMinimumBalanceForRentExemption = (\<lambda>n k. Inl (Error ''fetch failed'')) \<rparr>"

definition emptyWorld :: World where
  "emptyWorld =
    \<lparr> prisma = \<lparr> sponsoredAccount = [], whitelist = [], settings = [], activityLog = [] \<rparr>,
      tick = 0,
      submitted = [] \<rparr>"

definition demoWorld :: World where
  "demoWorld = snd (seedDemoData mockEnv emptyWorld)"

text \<open>
  The demo world after the owners of the accounts that hold more than the rent floor have
  withdrawn the excess.
\<close>

definition drainedWorld :: World where
  "drainedWorld =
     demoWorld\<lparr>prisma := (prisma demoWorld)\<lparr>sponsoredAccount :=
       map (\<lambda>row. row\<lparr>AccountForJudgment.balance :=
                           min (AccountForJudgment.balance row) RENT_MINIMUM\<rparr>)
         (sponsoredAccount (prisma demoWorld))\<rparr>\<rparr>"

text \<open>Three public keys: two sponsored accounts and the operator's wallet.\<close>

definition accountA :: string where
  "accountA = ''AyHPdf4GjnMgKrtGeNSTK23EQGskw1EnqG3ekcr754dd''"

definition accountB :: string where
  "accountB = ''Ak5Z4J6bLYT6yoTRKUG7q7fsSgY3XvcM2X7UUkekWUWE''"

definition operatorWallet :: string where
  "operatorWallet = ''FJ5EqFMYbyNMdfyk5z6rd8MXXGvJBZEjfNsTMTsnF9DS''"

text \<open>
  An RPC node that answers: every account holds \<open>n\<close> lamports in 165 bytes (no
  account, when \<open>n = 0\<close>), and the rent-exempt minimum is 2039280 lamports. The same
  node behind an installation whose configured secret \<open>k\<close> decodes to the key pair of
  the operator's wallet. And the node when its rent lookup is refused.
\<close>

definition nodeEnv :: "nat \<Rightarrow> Env" where
  "nodeEnv n =
     mockEnv\<lparr> getBalance := (\<lambda>t a. Inr n),
              getAccountInfo := (\<lambda>t a. Inr (if n = 0 then None
                                   else Some \<lparr> AccountInfo.lamports = n, dataLength = 165 \<rparr>)),
              getMinimumBalanceForRentExemption := (\<lambda>t k. Inr 2039280) \<rparr>"

definition liveEnv :: "string \<Rightarrow> nat \<Rightarrow> Env" where
  "liveEnv k n =
     (nodeEnv n)\<lparr> operatorPrivateKey := Some k,
                  keypairFromSecretKey :=
                    (\<lambda>x. if x = k then Inr operatorWallet
                         else Inl (Error ''provided secretKey is invalid'')) \<rparr>"

definition flakyEnv :: "nat \<Rightarrow> Env" where
  "flakyEnv n =
     (nodeEnv n)\<lparr> getMinimumBalanceForRentExemption :=
                    (\<lambda>t k. Inl (Error ''429 Too Many Requests'')) \<rparr>"

text \<open>
  A store with one row, for the first sponsored account: it holds the rent floor of a
  165-byte account, was last active 45 days before the clock starts, and is stored as
  \<open>ELIGIBLE\<close>. And the two sponsored accounts as the Scanner discovers them.
\<close>

definition ledgerWorld :: World where
  "ledgerWorld =
    \<lparr> prisma =
        \<lparr> sponsoredAccount =
            [\<lparr> AccountForJudgment.address = accountA,
               balance = RENT_MINIMUM,
               rentExemptMin = RENT_MINIMUM,
               lastActivity = daysAgo 1700000000000 45,
               status = ''ELIGIBLE'',
               detectedAt = daysAgo 1700000000000 60 \<rparr>],
          whitelist = [],
          settings = [],
          activityLog = [] \<rparr>,
      tick = 0,
      submitted = [] \<rparr>"

definition discoveredA :: DiscoveredAccount where
  "discoveredA =
     \<lparr> DiscoveredAccount.address = accountA,
       balance = RENT_MINIMUM,
       rentExemptMin = RENT_MINIMUM,
       createdAt = daysAgo 1700000000000 60 \<rparr>"

definition discoveredB :: DiscoveredAccount where
  "discoveredB =
     \<lparr> DiscoveredAccount.address = accountB,
       balance = RENT_MINIMUM,
       rentExemptMin = RENT_MINIMUM,
       createdAt = daysAgo 1700000000000 60 \<rparr>"

section \<open>Properties of the Judge\<close>

lemma TX_FEE_SOL_val: "TX_FEE_SOL = 1 / 200000"
  by (simp add: TX_FEE_SOL_def TX_FEE_LAMPORTS_def LAMPORTS_PER_SOL_def)

text \<open>
  C1 (as stated): every account with \<open>balance > rentExemptMin \<times> 1.01\<close> is judged
  \<open>PROTECTED\<close>. The profit check runs before the user-funds check, so this fails for an
  account whose balance does not exceed the transaction fee: with a balance of 0.000003 SOL
  and a rent floor of 0.000001 SOL the balance is above 1.01 times the floor and the verdict
  is \<open>SKIP\<close>.
\<close>

theorem judgeAccount_protected_counterexample:
  "AccountForJudgment.rentExemptMin
      \<lparr> AccountForJudgment.address = ''A'', balance = 3 / 1000000, rentExemptMin = 1 / 1000000,
        lastActivity = 0, status = ''ACTIVE'' \<rparr> * (101 / 100)
    < AccountForJudgment.balance
      \<lparr> AccountForJudgment.address = ''A'', balance = 3 / 1000000, rentExemptMin = 1 / 1000000,
        lastActivity = 0, status = ''ACTIVE'' \<rparr>
   \<and> JudgmentResult.status (judgeAccount 0
      \<lparr> AccountForJudgment.address = ''A'', balance = 3 / 1000000, rentExemptMin = 1 / 1000000,
        lastActivity = 0, status = ''ACTIVE'' \<rparr>
      \<lparr> minAgeDays = Finite 30, dryRunMode = True \<rparr> []) = SKIP"
  by (simp add: judgeAccount_def Let_def TX_FEE_SOL_val)

text \<open>
  C1 (amended): every account whose balance exceeds the transaction fee and exceeds
  \<open>rentExemptMin \<times> 1.01\<close> is judged \<open>PROTECTED\<close>, whatever the clock reading, the
  last activity, the settings and the whitelist are.
\<close>

theorem judgeAccount_protected:
  "TX_FEE_SOL < AccountForJudgment.balance a \<Longrightarrow>
   AccountForJudgment.rentExemptMin a * (101 / 100) < AccountForJudgment.balance a \<Longrightarrow>
   JudgmentResult.status (judgeAccount now a s w) = PROTECTED"
  by (simp add: judgeAccount_def Let_def USER_FUND_TOLERANCE_def)

theorem judgeAccount_protected_witness:
  "TX_FEE_SOL < AccountForJudgment.balance
      \<lparr> AccountForJudgment.address = ''PrT1'', balance = 125 / 100,
        rentExemptMin = 203928 / 100000000, lastActivity = 0, status = ''PROTECTED'' \<rparr>
   \<and> AccountForJudgment.rentExemptMin
      \<lparr> AccountForJudgment.address = ''PrT1'', balance = 125 / 100,
        rentExemptMin = 203928 / 100000000, lastActivity = 0, status = ''PROTECTED'' \<rparr> * (101 / 100)
     < AccountForJudgment.balance
      \<lparr> AccountForJudgment.address = ''PrT1'', balance = 125 / 100,
        rentExemptMin = 203928 / 100000000, lastActivity = 0, status = ''PROTECTED'' \<rparr>
   \<and> JudgmentResult.status (judgeAccount (3 * 86400000)
      \<lparr> AccountForJudgment.address = ''PrT1'', balance = 125 / 100,
        rentExemptMin = 203928 / 100000000, lastActivity = 0, status = ''PROTECTED'' \<rparr>
      \<lparr> minAgeDays = Finite 30, dryRunMode = True \<rparr> [''PrT1'']) = PROTECTED"
  using judgeAccount_protected [of
      "\<lparr> AccountForJudgment.address = ''PrT1'', balance = 125 / 100,
        rentExemptMin = 203928 / 100000000, lastActivity = 0, status = ''PROTECTED'' \<rparr>"
      "3 * 86400000" "\<lparr> minAgeDays = Finite 30, dryRunMode = True \<rparr>" "[''PrT1'']"]
  by (simp add: TX_FEE_SOL_val)



text \<open>
  C6 (as stated): two invocations of \<open>judgeAccount\<close> with the same account, settings and
  whitelist return the same verdict. The age check reads \<^verbatim>\<open>Date.now()\<close>, which is
  not one of the three inputs: the same dust account, settings and whitelist are judged
  \<open>ACTIVE\<close> twelve days after the last activity and \<open>ELIGIBLE\<close> ninety-two days
  after it.
\<close>

theorem judgeAccount_clock_counterexample:
  "JudgmentResult.status (judgeAccount (12 * 86400000)
      \<lparr> AccountForJudgment.address = ''Dust01'', balance = 203928 / 100000000,
        rentExemptMin = 203928 / 100000000, lastActivity = 0, status = ''ACTIVE'' \<rparr>
      \<lparr> minAgeDays = Finite 30, dryRunMode = True \<rparr> []) = ACTIVE
   \<and> JudgmentResult.status (judgeAccount (92 * 86400000)
      \<lparr> AccountForJudgment.address = ''Dust01'', balance = 203928 / 100000000,
        rentExemptMin = 203928 / 100000000, lastActivity = 0, status = ''ACTIVE'' \<rparr>
      \<lparr> minAgeDays = Finite 30, dryRunMode = True \<rparr> []) = ELIGIBLE"
  by (simp add: judgeAccount_def Let_def TX_FEE_SOL_val USER_FUND_TOLERANCE_def
      or_default_def DEFAULT_MIN_AGE_DAYS_def)

text \<open>
  C6 (amended): \<open>judgeAccount\<close> is deterministic given its three inputs and the clock
  reading. Two invocations that read the same \<^verbatim>\<open>Date.now()\<close> and whose accounts agree
  on address, balance, rent floor and last activity, whose settings agree on \<open>minAgeDays\<close>
  and whose whitelists hold the same addresses return the same verdict: the same status,
  reason and potential recovery, and the same remaining fields. Identical inputs are the
  special case; the stored status, the other fields of the row, \<open>dryRunMode\<close> and the
  order of the whitelist have no influence.
\<close>

theorem judgeAccount_deterministic:
  "now1 = now2 \<Longrightarrow>
   AccountForJudgment.address a1 = AccountForJudgment.address a2 \<Longrightarrow>
   AccountForJudgment.balance a1 = AccountForJudgment.balance a2 \<Longrightarrow>
   AccountForJudgment.rentExemptMin a1 = AccountForJudgment.rentExemptMin a2 \<Longrightarrow>
   AccountForJudgment.lastActivity a1 = AccountForJudgment.lastActivity a2 \<Longrightarrow>
   minAgeDays s1 = minAgeDays s2 \<Longrightarrow>
   set w1 = set w2 \<Longrightarrow>
   judgeAccount now1 a1 s1 w1 = judgeAccount now2 a2 s2 w2"
  by (simp add: judgeAccount_def Let_def)

theorem judgeAccount_deterministic_witness:
  "(45 * 86400000 :: real) = 45 * 86400000
   \<and> set [''X'', ''Y''] = set [''Y'', ''X'', ''X'']
   \<and> judgeAccount (45 * 86400000)
        \<lparr> AccountForJudgment.address = ''Dust01'', balance = 203928 / 100000000,
          rentExemptMin = 203928 / 100000000, lastActivity = 0, status = ''ACTIVE'' \<rparr>
        \<lparr> minAgeDays = Finite 30, dryRunMode = True \<rparr> [''X'', ''Y'']
     = judgeAccount (45 * 86400000)
        \<lparr> AccountForJudgment.address = ''Dust01'', balance = 203928 / 100000000,
          rentExemptMin = 203928 / 100000000, lastActivity = 0, status = ''ELIGIBLE'' \<rparr>
        \<lparr> minAgeDays = Finite 30, dryRunMode = False \<rparr> [''Y'', ''X'', ''X'']"
  using judgeAccount_deterministic [of "45 * 86400000" "45 * 86400000"
      "\<lparr> AccountForJudgment.address = ''Dust01'', balance = 203928 / 100000000,
        rentExemptMin = 203928 / 100000000, lastActivity = 0, status = ''ACTIVE'' \<rparr>"
      "\<lparr> AccountForJudgment.address = ''Dust01'', balance = 203928 / 100000000,
        rentExemptMin = 203928 / 100000000, lastActivity = 0, status = ''ELIGIBLE'' \<rparr>"
      "\<lparr> minAgeDays = Finite 30, dryRunMode = True \<rparr>"
      "\<lparr> minAgeDays = Finite 30, dryRunMode = False \<rparr>"
      "[''X'', ''Y'']" "[''Y'', ''X'', ''X'']"]
  by auto

lemma judgeAccount_zero_min_age_example:
  "JudgmentResult.status (judgeAccount (10 * 86400000)
      \<lparr> AccountForJudgment.address = ''Dust01'', balance = 203928 / 100000000,
        rentExemptMin = 203928 / 100000000, lastActivity = 0, status = ''ACTIVE'' \<rparr>
      \<lparr> minAgeDays = Finite 0, dryRunMode = True \<rparr> []) = ACTIVE"
  by (simp add: judgeAccount_def Let_def TX_FEE_SOL_val USER_FUND_TOLERANCE_def
      or_default_def DEFAULT_MIN_AGE_DAYS_def)



section \<open>Facts about the concrete worlds\<close>

lemma demoWorld_tick: "tick demoWorld = 28"
  by (simp add: demoWorld_def seedDemoData_def emptyWorld_def Let_def)

lemma demoWorld_settings:
  "getJudgmentSettings (prisma demoWorld) = \<lparr> minAgeDays = Finite 30, dryRunMode = True \<rparr>"
  by (simp add: demoWorld_def seedDemoData_def emptyWorld_def Let_def create_activityLog_def
      getJudgmentSettings_def findUnique_settings_def DEFAULT_MIN_AGE_DAYS_def)

lemma demoWorld_whitelist: "Store.whitelist (prisma demoWorld) = []"
  by (simp add: demoWorld_def seedDemoData_def emptyWorld_def Let_def create_activityLog_def)

lemma demoWorld_log: "map ActivityLog.action (activityLog (prisma demoWorld)) = [''SCAN'']"
  by (simp add: demoWorld_def seedDemoData_def emptyWorld_def Let_def create_activityLog_def)

lemma demoWorld_log_modes: "map ActivityLog.mode (activityLog (prisma demoWorld)) = [''SIMULATION'']"
  by (simp add: demoWorld_def seedDemoData_def emptyWorld_def Let_def create_activityLog_def)

lemma demoWorld_addresses:
  "map AccountForJudgment.address (sponsoredAccount (prisma demoWorld)) =
    [''8xKVzxxxxxxxxxxxxxxxxxxxxxxxxxxxxxxWhale1'', ''5mTRxxxxxxxxxxxxxxxxxxxxxxxxxxxxxxMidTr1'',
     ''7kPQxxxxxxxxxxxxxxxxxxxxxxxxxxxxxxMidTr2'', ''2dSTxxxxxxxxxxxxxxxxxxxxxxxxxxxxxxDust01'',
     ''3fGHxxxxxxxxxxxxxxxxxxxxxxxxxxxxxxDust02'', ''4jKLxxxxxxxxxxxxxxxxxxxxxxxxxxxxxxDust03'',
     ''6nPRxxxxxxxxxxxxxxxxxxxxxxxxxxxxxxDust04'', ''9qVXxxxxxxxxxxxxxxxxxxxxxxxxxxxxxxDust05'',
     ''1aWYxxxxxxxxxxxxxxxxxxxxxxxxxxxxxxDust06'', ''PrT1xxxxxxxxxxxxxxxxxxxxxxxxxxxxxxProt01'',
     ''PrT2xxxxxxxxxxxxxxxxxxxxxxxxxxxxxxProt02'', ''AcT1xxxxxxxxxxxxxxxxxxxxxxxxxxxxxxActv01'',
     ''AcT2xxxxxxxxxxxxxxxxxxxxxxxxxxxxxxActv02'', ''RcL1xxxxxxxxxxxxxxxxxxxxxxxxxxxxxxRclm01'']"
  by (simp add: demoWorld_def seedDemoData_def emptyWorld_def Let_def create_activityLog_def)

lemma demoWorld_statuses:
  "map AccountForJudgment.status (sponsoredAccount (prisma demoWorld)) =
    [''ELIGIBLE'', ''ELIGIBLE'', ''ELIGIBLE'', ''ELIGIBLE'', ''ELIGIBLE'', ''ELIGIBLE'',
     ''ELIGIBLE'', ''ELIGIBLE'', ''ELIGIBLE'', ''PROTECTED'', ''PROTECTED'', ''ACTIVE'',
     ''ACTIVE'', ''RECLAIMED'']"
  by (simp add: demoWorld_def seedDemoData_def emptyWorld_def Let_def create_activityLog_def)

lemma demoWorld_unique: "unique_addresses (prisma demoWorld)"
  unfolding unique_addresses_def demoWorld_addresses by simp

lemma demoWorld_eligible_count: "length (eligibleRows demoWorld) = 9"
  by (simp add: eligibleRows_def demoWorld_def seedDemoData_def emptyWorld_def Let_def
      create_activityLog_def)

lemma demoWorld_verdicts:
  "map JudgmentResult.status (batchVerdicts mockEnv demoWorld) =
     [PROTECTED, PROTECTED, PROTECTED, ELIGIBLE, ELIGIBLE, ELIGIBLE, ELIGIBLE, ELIGIBLE, ELIGIBLE]"
  unfolding batchVerdicts_def demoWorld_settings demoWorld_whitelist demoWorld_tick
  by (simp add: eligibleRows_def demoWorld_def seedDemoData_def emptyWorld_def mockEnv_def
      create_activityLog_def judgeAccount_def Let_def TX_FEE_SOL_val USER_FUND_TOLERANCE_def
      or_default_def DEFAULT_MIN_AGE_DAYS_def RENT_MINIMUM_def daysAgo_def)

lemma demoWorld_find_whale:
  "findUnique_sponsoredAccount (prisma demoWorld) ''8xKVzxxxxxxxxxxxxxxxxxxxxxxxxxxxxxxWhale1''
     = Some (sponsoredAccount (prisma demoWorld) ! 0)"
  by (simp add: findUnique_sponsoredAccount_def demoWorld_def seedDemoData_def emptyWorld_def
      Let_def create_activityLog_def)

lemma demoWorld_find_dust:
  "findUnique_sponsoredAccount (prisma demoWorld) ''2dSTxxxxxxxxxxxxxxxxxxxxxxxxxxxxxxDust01''
     = Some (sponsoredAccount (prisma demoWorld) ! 3)"
  by (simp add: findUnique_sponsoredAccount_def demoWorld_def seedDemoData_def emptyWorld_def
      Let_def create_activityLog_def)

lemma demoWorld_whale_verdict:
  "JudgmentResult.status (revalidate mockEnv demoWorld (sponsoredAccount (prisma demoWorld) ! 0))
     = PROTECTED"
  unfolding revalidate_def demoWorld_settings demoWorld_whitelist demoWorld_tick
  by (simp add: demoWorld_def seedDemoData_def emptyWorld_def mockEnv_def
      create_activityLog_def judgeAccount_def Let_def TX_FEE_SOL_val USER_FUND_TOLERANCE_def
      RENT_MINIMUM_def)

lemma demoWorld_dust_verdict:
  "JudgmentResult.status (revalidate mockEnv demoWorld (sponsoredAccount (prisma demoWorld) ! 3))
     = ELIGIBLE
   \<and> JudgmentResult.potentialRecovery
       (revalidate mockEnv demoWorld (sponsoredAccount (prisma demoWorld) ! 3))
     = 203428 / 100000000"
  unfolding revalidate_def demoWorld_settings demoWorld_whitelist demoWorld_tick
  by (simp add: demoWorld_def seedDemoData_def emptyWorld_def mockEnv_def
      create_activityLog_def judgeAccount_def Let_def TX_FEE_SOL_val USER_FUND_TOLERANCE_def
      or_default_def DEFAULT_MIN_AGE_DAYS_def RENT_MINIMUM_def daysAgo_def)

lemma accountA_is_public_key: "new_PublicKey accountA = None"
  by (simp add: accountA_def new_PublicKey_def bs58_decode_length_def base58_digits_def
      base58_alphabet_def byte_length.simps)

lemma accountB_is_public_key: "new_PublicKey accountB = None"
  by (simp add: accountB_def new_PublicKey_def bs58_decode_length_def base58_digits_def
      base58_alphabet_def byte_length.simps)

lemma accountB_not_accountA: "accountB \<noteq> accountA"
  by (simp add: accountA_def accountB_def)

lemma ledgerWorld_find:
  "findUnique_sponsoredAccount (prisma ledgerWorld) accountA
     = Some (sponsoredAccount (prisma ledgerWorld) ! 0)"
  "findUnique_sponsoredAccount (prisma ledgerWorld) accountB = None"
  "AccountForJudgment.status (sponsoredAccount (prisma ledgerWorld) ! 0) = ''ELIGIBLE''"
  "AccountForJudgment.balance (sponsoredAccount (prisma ledgerWorld) ! 0) = 203928 / 100000000"
  "activityLog (prisma ledgerWorld) = []"
  "tick ledgerWorld = 0"
  using accountB_not_accountA
  by (auto simp: findUnique_sponsoredAccount_def ledgerWorld_def RENT_MINIMUM_def)

lemma ledgerWorld_verdict:
  "JudgmentResult.status
     (revalidate mockEnv ledgerWorld (sponsoredAccount (prisma ledgerWorld) ! 0)) = ELIGIBLE"
  by (simp add: revalidate_def ledgerWorld_def mockEnv_def getJudgmentSettings_def
      findUnique_settings_def judgeAccount_def Let_def TX_FEE_SOL_val USER_FUND_TOLERANCE_def
      or_default_def DEFAULT_MIN_AGE_DAYS_def RENT_MINIMUM_def daysAgo_def)

section \<open>Properties of the Executioner\<close>

subsection \<open>The paths through reclaimAccount\<close>

lemma reclaimAccount_try_not_found:
  assumes "findUnique_sponsoredAccount (prisma w) addr = None"
  shows "reclaimAccount_try env w addr dryRun =
         Inr (\<lparr> ReclaimResult.success = False,
                address = addr,
                mode = (if dryRun then SIMULATION else REAL),
                amount = 0,
                txSignature = None,
                explorerUrl = None,
                message = [Lit ''Account not found in database''],
                error = Some ''ACCOUNT_NOT_FOUND'' \<rparr>, w)"
  using assms by (simp add: reclaimAccount_try_def)

lemma reclaimAccount_try_rejected:
  assumes "findUnique_sponsoredAccount (prisma w) addr = Some acct"
    and "JudgmentResult.status (revalidate env w acct) \<noteq> ELIGIBLE"
  shows "reclaimAccount_try env w addr dryRun =
     Inr (\<lparr> ReclaimResult.success = False,
            address = addr,
            mode = (if dryRun then SIMULATION else REAL),
            amount = 0,
            txSignature = None,
            explorerUrl = None,
            message = Lit ''Cannot reclaim: '' # JudgmentResult.reason (revalidate env w acct),
            error = Some (JudgmentStatus_string
                            (JudgmentResult.status (revalidate env w acct))) \<rparr>,
          (advance w)\<lparr>prisma := create_activityLog (prisma w)
             \<lparr> ActivityLog.action = ''SKIP'',
               account = addr,
               amount = AccountForJudgment.balance acct,
               mode = (if dryRun then ''SIMULATION'' else ''REAL''),
               txSignature = None,
               reason = Some (JudgmentResult.reason (revalidate env w acct)) \<rparr>\<rparr>)"
  using assms by (simp add: reclaimAccount_try_def revalidate_def Let_def advance_def)

lemma reclaimAccount_try_simulated:
  assumes "findUnique_sponsoredAccount (prisma w) addr = Some acct"
    and "JudgmentResult.status (revalidate env w acct) = ELIGIBLE"
  shows "reclaimAccount_try env w addr True =
     Inr (\<lparr> ReclaimResult.success = True,
            address = addr,
            mode = SIMULATION,
            amount = JudgmentResult.potentialRecovery (revalidate env w acct),
            txSignature = None,
            explorerUrl = None,
            message = [Lit ''Simulation Success: Would reclaim '',
                       ToFixed (JudgmentResult.potentialRecovery (revalidate env w acct)) 6,
                       Lit '' SOL from '', Lit addr],
            error = None \<rparr>,
          (advance w)\<lparr>prisma := create_activityLog (prisma w)
             \<lparr> ActivityLog.action = ''RECLAIM'',
               account = addr,
               amount = JudgmentResult.potentialRecovery (revalidate env w acct),
               mode = ''SIMULATION'',
               txSignature = None,
               reason = Some [Lit ''Simulation: Would reclaim '',
                              ToFixed (JudgmentResult.potentialRecovery (revalidate env w acct)) 6,
                              Lit '' SOL''] \<rparr>\<rparr>)"
  using assms by (simp add: reclaimAccount_try_def revalidate_def Let_def advance_def)

subsection \<open>Revalidation\<close>

text \<open>
  C2: when \<open>reclaimAccount\<close> finds the row and the fresh verdict is not \<open>ELIGIBLE\<close>, in
  either mode, the Activity Log grows by exactly one entry, a \<open>SKIP\<close> entry that carries
  the reason of the verdict; the result is a failure whose error code is the status of the
  verdict; and the \<open>RECLAIM\<close> entries of the log are the ones it had before.
\<close>

theorem reclaimAccount_not_eligible:
  assumes "findUnique_sponsoredAccount (prisma w) addr = Some acct"
    and "JudgmentResult.status (revalidate env w acct) \<noteq> ELIGIBLE"
  shows "activityLog (prisma (snd (reclaimAccount env w addr dryRun)))
         = activityLog (prisma w) @
             [\<lparr> ActivityLog.action = ''SKIP'',
                account = addr,
                amount = AccountForJudgment.balance acct,
                mode = (if dryRun then ''SIMULATION'' else ''REAL''),
                txSignature = None,
                reason = Some (JudgmentResult.reason (revalidate env w acct)) \<rparr>]
       \<and> \<not> ReclaimResult.success (fst (reclaimAccount env w addr dryRun))
       \<and> ReclaimResult.error (fst (reclaimAccount env w addr dryRun))
           = Some (JudgmentStatus_string (JudgmentResult.status (revalidate env w acct)))
       \<and> filter (\<lambda>e. ActivityLog.action e = ''RECLAIM'')
            (activityLog (prisma (snd (reclaimAccount env w addr dryRun))))
           = filter (\<lambda>e. ActivityLog.action e = ''RECLAIM'') (activityLog (prisma w))"
  by (simp add: reclaimAccount_def reclaimAccount_try_rejected [OF assms] create_activityLog_def)

theorem reclaimAccount_not_eligible_witness:
  "findUnique_sponsoredAccount (prisma demoWorld) ''8xKVzxxxxxxxxxxxxxxxxxxxxxxxxxxxxxxWhale1''
     = Some (sponsoredAccount (prisma demoWorld) ! 0)
   \<and> JudgmentResult.status (revalidate mockEnv demoWorld (sponsoredAccount (prisma demoWorld) ! 0))
       \<noteq> ELIGIBLE
   \<and> map ActivityLog.action (activityLog (prisma (snd
         (reclaimAccount mockEnv demoWorld ''8xKVzxxxxxxxxxxxxxxxxxxxxxxxxxxxxxxWhale1'' False))))
       = [''SCAN'', ''SKIP'']
   \<and> \<not> ReclaimResult.success (fst
         (reclaimAccount mockEnv demoWorld ''8xKVzxxxxxxxxxxxxxxxxxxxxxxxxxxxxxxWhale1'' False))
   \<and> ReclaimResult.error (fst
         (reclaimAccount mockEnv demoWorld ''8xKVzxxxxxxxxxxxxxxxxxxxxxxxxxxxxxxWhale1'' False))
       = Some ''PROTECTED''"
  using reclaimAccount_not_eligible [of demoWorld "''8xKVzxxxxxxxxxxxxxxxxxxxxxxxxxxxxxxWhale1''"
      "sponsoredAccount (prisma demoWorld) ! 0" mockEnv False]
  by (simp add: demoWorld_find_whale demoWorld_whale_verdict demoWorld_log)

subsection \<open>Simulation mode\<close>

text \<open>
  C4: a call \<open>reclaimAccount address True\<close> hands no transfer to
  \<^verbatim>\<open>sendAndConfirmTransaction\<close> and leaves the account table as it was, so every stored
  status keeps its value; and when the row is found and its fresh verdict is \<open>ELIGIBLE\<close>,
  the log grows by one \<open>RECLAIM\<close> entry in \<open>SIMULATION\<close> mode that records the
  potential recovery of the verdict, and the result is a success in \<open>SIMULATION\<close> mode
  with that amount and without a transaction signature.
\<close>

theorem reclaimAccount_simulation:
  "submitted (snd (reclaimAccount env w addr True)) = submitted w
   \<and> sponsoredAccount (prisma (snd (reclaimAccount env w addr True))) = sponsoredAccount (prisma w)
   \<and> (findUnique_sponsoredAccount (prisma w) addr = Some acct
       \<and> JudgmentResult.status (revalidate env w acct) = ELIGIBLE \<longrightarrow>
        activityLog (prisma (snd (reclaimAccount env w addr True)))
          = activityLog (prisma w) @
             [\<lparr> ActivityLog.action = ''RECLAIM'',
                account = addr,
                amount = JudgmentResult.potentialRecovery (revalidate env w acct),
                mode = ''SIMULATION'',
                txSignature = None,
                reason = Some [Lit ''Simulation: Would reclaim '',
                               ToFixed (JudgmentResult.potentialRecovery (revalidate env w acct)) 6,
                               Lit '' SOL''] \<rparr>]
        \<and> ReclaimResult.success (fst (reclaimAccount env w addr True))
        \<and> ReclaimResult.mode (fst (reclaimAccount env w addr True)) = SIMULATION
        \<and> ReclaimResult.amount (fst (reclaimAccount env w addr True))
            = JudgmentResult.potentialRecovery (revalidate env w acct)
        \<and> ReclaimResult.txSignature (fst (reclaimAccount env w addr True)) = None)"
proof (cases "findUnique_sponsoredAccount (prisma w) addr")
  case None
  then show ?thesis
    by (simp add: reclaimAccount_def reclaimAccount_try_not_found)
next
  case (Some row)
  show ?thesis
  proof (cases "JudgmentResult.status (revalidate env w row) = ELIGIBLE")
    case True
    show ?thesis
      by (simp add: reclaimAccount_def reclaimAccount_try_simulated [OF Some True] Some
          create_activityLog_def advance_def)
  next
    case False
    then show ?thesis
      by (auto simp: reclaimAccount_def reclaimAccount_try_rejected [OF Some False] Some
          create_activityLog_def advance_def)
  qed
qed

theorem reclaimAccount_simulation_witness:
  "findUnique_sponsoredAccount (prisma demoWorld) ''2dSTxxxxxxxxxxxxxxxxxxxxxxxxxxxxxxDust01''
     = Some (sponsoredAccount (prisma demoWorld) ! 3)
   \<and> JudgmentResult.status (revalidate mockEnv demoWorld (sponsoredAccount (prisma demoWorld) ! 3))
       = ELIGIBLE
   \<and> submitted (snd
         (reclaimAccount mockEnv demoWorld ''2dSTxxxxxxxxxxxxxxxxxxxxxxxxxxxxxxDust01'' True))
       = submitted demoWorld
   \<and> sponsoredAccount (prisma (snd
         (reclaimAccount mockEnv demoWorld ''2dSTxxxxxxxxxxxxxxxxxxxxxxxxxxxxxxDust01'' True)))
       = sponsoredAccount (prisma demoWorld)
   \<and> map ActivityLog.action (activityLog (prisma (snd
         (reclaimAccount mockEnv demoWorld ''2dSTxxxxxxxxxxxxxxxxxxxxxxxxxxxxxxDust01'' True))))
       = [''SCAN'', ''RECLAIM'']
   \<and> map ActivityLog.mode (activityLog (prisma (snd
         (reclaimAccount mockEnv demoWorld ''2dSTxxxxxxxxxxxxxxxxxxxxxxxxxxxxxxDust01'' True))))
       = [''SIMULATION'', ''SIMULATION'']
   \<and> ReclaimResult.success (fst
         (reclaimAccount mockEnv demoWorld ''2dSTxxxxxxxxxxxxxxxxxxxxxxxxxxxxxxDust01'' True))
   \<and> ReclaimResult.amount (fst
         (reclaimAccount mockEnv demoWorld ''2dSTxxxxxxxxxxxxxxxxxxxxxxxxxxxxxxDust01'' True))
       = 203428 / 100000000
   \<and> ReclaimResult.txSignature (fst
         (reclaimAccount mockEnv demoWorld ''2dSTxxxxxxxxxxxxxxxxxxxxxxxxxxxxxxDust01'' True))
       = None"
  using reclaimAccount_simulation [of mockEnv demoWorld "''2dSTxxxxxxxxxxxxxxxxxxxxxxxxxxxxxxDust01''"
      "sponsoredAccount (prisma demoWorld) ! 3"]
  by (simp add: demoWorld_find_dust demoWorld_dust_verdict demoWorld_log demoWorld_log_modes)


subsection \<open>The decisions that leave no log entry\<close>

lemma reclaimAccount_try_no_key:
  assumes "findUnique_sponsoredAccount (prisma w) addr = Some acct"
    and "JudgmentResult.status (revalidate env w acct) = ELIGIBLE"
    and "operatorPrivateKey env = None"
  shows "reclaimAccount_try env w addr False =
     Inr (\<lparr> ReclaimResult.success = False,
            address = addr,
            mode = SIMULATION,
            amount = 0,
            txSignature = None,
            explorerUrl = None,
            message = [Lit ''Cannot execute real transaction: OPERATOR_PRIVATE_KEY not configured''],
            error = Some ''NO_PRIVATE_KEY'' \<rparr>, advance w)"
  using assms by (simp add: reclaimAccount_try_def revalidate_def Let_def)

lemma reclaimAccount_try_already_empty:
  assumes "findUnique_sponsoredAccount (prisma w) addr = Some acct"
    and "JudgmentResult.status (revalidate env w acct) = ELIGIBLE"
    and "operatorPrivateKey env = Some key"
    and "getConnection env = None"
    and "keypairFromSecretKey env key = Inr operatorPubkey"
    and "newPublicKey env addr = None"
    and "getBalance env (Suc (tick w)) addr = Inr 0"
  shows "reclaimAccount_try env w addr False =
     Inr (\<lparr> ReclaimResult.success = True,
            address = addr,
            mode = REAL,
            amount = 0,
            txSignature = None,
            explorerUrl = None,
            message = [Lit ''Account already empty - marked as reclaimed''],
            error = None \<rparr>,
          (advance (advance w))\<lparr>prisma := update_sponsoredAccount (prisma w) addr
             (\<lambda>row. row\<lparr>AccountForJudgment.status := ''RECLAIMED'',
                          AccountForJudgment.balance := 0\<rparr>)\<rparr>)"
  using assms by (simp add: reclaimAccount_try_def revalidate_def Let_def advance_def)

lemma reclaimAccount_try_insufficient:
  assumes "findUnique_sponsoredAccount (prisma w) addr = Some acct"
    and "JudgmentResult.status (revalidate env w acct) = ELIGIBLE"
    and "operatorPrivateKey env = Some key"
    and "getConnection env = None"
    and "keypairFromSecretKey env key = Inr operatorPubkey"
    and "newPublicKey env addr = None"
    and "getBalance env (Suc (tick w)) addr = Inr n"
    and "0 < n" and "int n \<le> TX_FEE_LAMPORTS"
  shows "reclaimAccount_try env w addr False =
     Inr (\<lparr> ReclaimResult.success = False,
            address = addr,
            mode = REAL,
            amount = 0,
            txSignature = None,
            explorerUrl = None,
            message = [Lit ''Balance too low to cover transaction fee''],
            error = Some ''INSUFFICIENT_BALANCE'' \<rparr>,
          advance (advance w))"
  using assms by (simp add: reclaimAccount_try_def revalidate_def Let_def advance_def)

lemma revalidate_liveEnv: "revalidate (liveEnv k n) w acct = revalidate mockEnv w acct"
  by (simp add: revalidate_def liveEnv_def nodeEnv_def)

lemma liveEnv_answers:
  "operatorPrivateKey (liveEnv k n) = Some k"
  "getConnection (liveEnv k n) = None"
  "keypairFromSecretKey (liveEnv k n) k = Inr operatorWallet"
  "newPublicKey (liveEnv k n) = new_PublicKey"
  "getBalance (liveEnv k n) t a = Inr n"
  by (simp_all add: liveEnv_def nodeEnv_def mockEnv_def)

lemma ledgerWorld_status_after:
  "map_option AccountForJudgment.status
     (findUnique_sponsoredAccount
        (update_sponsoredAccount (prisma ledgerWorld) accountA
           (\<lambda>row. row\<lparr>AccountForJudgment.status := ''RECLAIMED'',
                        AccountForJudgment.balance := 0\<rparr>))
        accountA) = Some ''RECLAIMED''"
  by (simp add: findUnique_sponsoredAccount_def update_sponsoredAccount_def ledgerWorld_def)

text \<open>
  C7: every decision of \<open>reclaimAccount\<close> produces exactly one Activity Log entry. The
  code does not do this on three of its paths, all in real mode and all for an account
  whose fresh verdict is \<open>ELIGIBLE\<close>:
  \<^item> without an operator key (the Dust01 account of the demo data) the call fails with
    \<open>NO_PRIVATE_KEY\<close>;
  \<^item> with a configured secret \<open>k\<close> and a ledger balance of 0, for the account at the
    public key \<open>accountA\<close>, the call succeeds and marks the row \<open>RECLAIMED\<close>;
  \<^item> with a configured secret \<open>k\<close> and a ledger balance of 4000 lamports, for the same
    account, the call fails with \<open>INSUFFICIENT_BALANCE\<close>;

  and each time the Activity Log is the one from before the call.
\<close>

theorem reclaimAccount_unlogged_decisions:
  "ReclaimResult.error (fst (reclaimAccount mockEnv demoWorld ''2dSTxxxxxxxxxxxxxxxxxxxxxxxxxxxxxxDust01'' False))
     = Some ''NO_PRIVATE_KEY''
   \<and> activityLog (prisma (snd (reclaimAccount mockEnv demoWorld ''2dSTxxxxxxxxxxxxxxxxxxxxxxxxxxxxxxDust01'' False)))
     = activityLog (prisma demoWorld)
   \<and> new_PublicKey accountA = None
   \<and> ReclaimResult.success (fst (reclaimAccount (liveEnv k 0) ledgerWorld accountA False))
   \<and> ReclaimResult.error (fst (reclaimAccount (liveEnv k 0) ledgerWorld accountA False)) = None
   \<and> map_option AccountForJudgment.status (findUnique_sponsoredAccount
        (prisma (snd (reclaimAccount (liveEnv k 0) ledgerWorld accountA False))) accountA)
     = Some ''RECLAIMED''
   \<and> activityLog (prisma (snd (reclaimAccount (liveEnv k 0) ledgerWorld accountA False)))
     = activityLog (prisma ledgerWorld)
   \<and> ReclaimResult.error (fst (reclaimAccount (liveEnv k 4000) ledgerWorld accountA False))
     = Some ''INSUFFICIENT_BALANCE''
   \<and> activityLog (prisma (snd (reclaimAccount (liveEnv k 4000) ledgerWorld accountA False)))
     = activityLog (prisma ledgerWorld)"
proof -
  have el: "JudgmentResult.status
      (revalidate mockEnv demoWorld (sponsoredAccount (prisma demoWorld) ! 3)) = ELIGIBLE"
    using demoWorld_dust_verdict by simp
  have a: "reclaimAccount_try mockEnv demoWorld ''2dSTxxxxxxxxxxxxxxxxxxxxxxxxxxxxxxDust01'' False =
     Inr (\<lparr> ReclaimResult.success = False,
            address = ''2dSTxxxxxxxxxxxxxxxxxxxxxxxxxxxxxxDust01'',
            mode = SIMULATION,
            amount = 0,
            txSignature = None,
            explorerUrl = None,
            message = [Lit ''Cannot execute real transaction: OPERATOR_PRIVATE_KEY not configured''],
            error = Some ''NO_PRIVATE_KEY'' \<rparr>, advance demoWorld)"
    by (rule reclaimAccount_try_no_key [OF demoWorld_find_dust el]) (simp add: mockEnv_def)
  have el': "JudgmentResult.status
      (revalidate (liveEnv k n) ledgerWorld (sponsoredAccount (prisma ledgerWorld) ! 0)) = ELIGIBLE"
    for n
    using ledgerWorld_verdict by (simp add: revalidate_liveEnv)
  have b: "reclaimAccount_try (liveEnv k 0) ledgerWorld accountA False =
     Inr (\<lparr> ReclaimResult.success = True,
            address = accountA,
            mode = REAL,
            amount = 0,
            txSignature = None,
            explorerUrl = None,
            message = [Lit ''Account already empty - marked as reclaimed''],
            error = None \<rparr>,
          (advance (advance ledgerWorld))\<lparr>prisma := update_sponsoredAccount (prisma ledgerWorld)
             accountA
             (\<lambda>row. row\<lparr>AccountForJudgment.status := ''RECLAIMED'',
                          AccountForJudgment.balance := 0\<rparr>)\<rparr>)"
    by (rule reclaimAccount_try_already_empty
        [where key = k and operatorPubkey = operatorWallet, OF ledgerWorld_find(1) el'])
      (simp_all add: liveEnv_answers accountA_is_public_key)
  have c: "reclaimAccount_try (liveEnv k 4000) ledgerWorld accountA False =
     Inr (\<lparr> ReclaimResult.success = False,
            address = accountA,
            mode = REAL,
            amount = 0,
            txSignature = None,
            explorerUrl = None,
            message = [Lit ''Balance too low to cover transaction fee''],
            error = Some ''INSUFFICIENT_BALANCE'' \<rparr>,
          advance (advance ledgerWorld))"
    by (rule reclaimAccount_try_insufficient
        [where key = k and operatorPubkey = operatorWallet and n = 4000,
          OF ledgerWorld_find(1) el'])
      (simp_all add: liveEnv_answers accountA_is_public_key TX_FEE_LAMPORTS_def)
  show ?thesis
    by (simp add: reclaimAccount_def a b c advance_def accountA_is_public_key
        update_sponsoredAccount_def
        ledgerWorld_status_after [unfolded update_sponsoredAccount_def])
qed

subsection \<open>Batch reclamation\<close>

lemma reclaimAccount_simulation_found:
  assumes "findUnique_sponsoredAccount (prisma w) addr = Some acct"
  shows "ReclaimResult.success (fst (reclaimAccount env w addr True))
           = (JudgmentResult.status (revalidate env w acct) = ELIGIBLE)
     \<and> (ReclaimResult.success (fst (reclaimAccount env w addr True)) \<longrightarrow>
         ReclaimResult.amount (fst (reclaimAccount env w addr True))
           = JudgmentResult.potentialRecovery (revalidate env w acct))
     \<and> sponsoredAccount (prisma (snd (reclaimAccount env w addr True))) = sponsoredAccount (prisma w)
     \<and> settings (prisma (snd (reclaimAccount env w addr True))) = settings (prisma w)
     \<and> Store.whitelist (prisma (snd (reclaimAccount env w addr True))) = Store.whitelist (prisma w)
     \<and> tick (snd (reclaimAccount env w addr True)) = Suc (tick w)"
proof (cases "JudgmentResult.status (revalidate env w acct) = ELIGIBLE")
  case True
  show ?thesis
    by (simp add: reclaimAccount_def reclaimAccount_try_simulated [OF assms True] True
        create_activityLog_def advance_def)
next
  case False
  show ?thesis
    by (simp add: reclaimAccount_def reclaimAccount_try_rejected [OF assms False] False
        create_activityLog_def advance_def)
qed

lemma find_unique_row:
  "distinct (map AccountForJudgment.address rows) \<Longrightarrow> row \<in> set rows \<Longrightarrow>
   find (\<lambda>r. AccountForJudgment.address r = AccountForJudgment.address row) rows = Some row"
proof (induction rows)
  case Nil
  then show ?case by simp
next
  case (Cons r rows)
  then show ?case by (cases "r = row") (auto simp: image_iff)
qed

lemma simulation_loop:
  assumes "\<forall>x \<in> set xs. find (\<lambda>r. AccountForJudgment.address r = AccountForJudgment.address x) T = Some x"
    and "sponsoredAccount (prisma w) = T"
    and "getJudgmentSettings (prisma w) = S"
    and "map WhitelistEntry.address (Store.whitelist (prisma w)) = W"
  shows "successful (fst (fold (reclaimAllEligible_step env True) xs (b, w)))
           = successful b + length (filter (\<lambda>j. JudgmentResult.status j = ELIGIBLE)
                                      (verdicts_from env S W (tick w) xs))
       \<and> failed (fst (fold (reclaimAllEligible_step env True) xs (b, w)))
           = failed b + length (filter (\<lambda>j. JudgmentResult.status j \<noteq> ELIGIBLE)
                                      (verdicts_from env S W (tick w) xs))
       \<and> totalReclaimed (fst (fold (reclaimAllEligible_step env True) xs (b, w)))
           = totalReclaimed b + sum_list (map JudgmentResult.potentialRecovery
                (filter (\<lambda>j. JudgmentResult.status j = ELIGIBLE) (verdicts_from env S W (tick w) xs)))"
  using assms
proof (induction xs arbitrary: b w)
  case Nil
  then show ?case by simp
next
  case (Cons x xs)
  let ?addr = "AccountForJudgment.address x"
  let ?rw = "reclaimAccount env w ?addr True"
  have found: "findUnique_sponsoredAccount (prisma w) ?addr = Some x"
    using Cons.prems by (simp add: findUnique_sponsoredAccount_def)
  have verdict: "revalidate env w x = judgeAccount (Date_now env (tick w)) x S W"
    using Cons.prems by (simp add: revalidate_def)
  note call = reclaimAccount_simulation_found [OF found, of env]
  have same: "sponsoredAccount (prisma (snd ?rw)) = T"
    "getJudgmentSettings (prisma (snd ?rw)) = S"
    "map WhitelistEntry.address (Store.whitelist (prisma (snd ?rw))) = W"
    "tick (snd ?rw) = Suc (tick w)"
    using call Cons.prems
    by (simp_all add: getJudgmentSettings_def findUnique_settings_def)
  have rest: "\<forall>x \<in> set xs. find (\<lambda>r. AccountForJudgment.address r = AccountForJudgment.address x) T = Some x"
    using Cons.prems by simp
  obtain b' where step: "reclaimAllEligible_step env True x (b, w) = (b', snd ?rw)"
    by (simp add: reclaimAllEligible_step_def Let_def)
  have b': "successful b' = successful b + (if JudgmentResult.status (revalidate env w x) = ELIGIBLE then 1 else 0)"
    "failed b' = failed b + (if JudgmentResult.status (revalidate env w x) = ELIGIBLE then 0 else 1)"
    "totalReclaimed b' = totalReclaimed b + (if JudgmentResult.status (revalidate env w x) = ELIGIBLE
        then JudgmentResult.potentialRecovery (revalidate env w x) else 0)"
    using step call
    by (auto simp: reclaimAllEligible_step_def Let_def)
  show ?case
    using Cons.IH [OF rest same(1) same(2) same(3), of b'] b'
    by (simp add: step same(4) verdict)
qed

lemma simulation_batch_counts:
  assumes "unique_addresses (prisma w)"
  shows "successful (fst (reclaimAllEligible env w True))
           = length (filter (\<lambda>j. JudgmentResult.status j = ELIGIBLE) (batchVerdicts env w))
       \<and> failed (fst (reclaimAllEligible env w True))
           = length (filter (\<lambda>j. JudgmentResult.status j \<noteq> ELIGIBLE) (batchVerdicts env w))
       \<and> totalReclaimed (fst (reclaimAllEligible env w True))
           = sum_list (map JudgmentResult.potentialRecovery
                (filter (\<lambda>j. JudgmentResult.status j = ELIGIBLE) (batchVerdicts env w)))"
proof -
  have "\<forall>x \<in> set (eligibleRows w).
          find (\<lambda>r. AccountForJudgment.address r = AccountForJudgment.address x)
            (sponsoredAccount (prisma w)) = Some x"
    using assms by (auto simp: eligibleRows_def unique_addresses_def intro: find_unique_row)
  from simulation_loop [OF this refl refl refl] show ?thesis
    by (simp add: reclaimAllEligible_def batchVerdicts_def eligibleRows_def Let_def)
qed

lemma reclaimAccount_address:
  "ReclaimResult.address (fst (reclaimAccount env w addr dryRun)) = addr"
  by (simp add: reclaimAccount_def reclaimAccount_try_def Let_def
      split: option.split sum.split prod.split)

lemma batch_loop_attempts:
  "map ReclaimResult.address (results (fst (fold (reclaimAllEligible_step env dryRun) xs (b, w))))
     = map ReclaimResult.address (results b) @ map AccountForJudgment.address xs
   \<and> successful (fst (fold (reclaimAllEligible_step env dryRun) xs (b, w)))
       + failed (fst (fold (reclaimAllEligible_step env dryRun) xs (b, w)))
     = successful b + failed b + length xs
   \<and> BatchReclaimResult.total (fst (fold (reclaimAllEligible_step env dryRun) xs (b, w)))
     = BatchReclaimResult.total b"
proof (induction xs arbitrary: b w)
  case Nil
  then show ?case by simp
next
  case (Cons x xs)
  obtain b' w' where step: "reclaimAllEligible_step env dryRun x (b, w) = (b', w')"
    by (cases "reclaimAllEligible_step env dryRun x (b, w)")
  then have "map ReclaimResult.address (results b')
               = map ReclaimResult.address (results b) @ [AccountForJudgment.address x]"
    "successful b' + failed b' = successful b + failed b + 1"
    "BatchReclaimResult.total b' = BatchReclaimResult.total b"
    by (auto simp: reclaimAllEligible_step_def Let_def reclaimAccount_address split: if_splits)
  with Cons.IH [of b' w'] show ?case
    by (simp add: step)
qed

text \<open>
  C8 (as stated): with nine rows whose stored status is \<open>ELIGIBLE\<close>, a batch in
  simulation mode returns \<open>successful = 9\<close> and \<open>failed = 0\<close>. Every row is judged
  again before it is reclaimed, and the stored status does not decide that verdict: the
  store the demo seeder creates has nine \<open>ELIGIBLE\<close> rows, three of them hold user
  funds, and the batch returns \<open>successful = 6\<close> and \<open>failed = 3\<close>.
\<close>

theorem reclaimAllEligible_demo_counterexample:
  "length (eligibleRows demoWorld) = 9
   \<and> successful (fst (reclaimAllEligible mockEnv demoWorld True)) = 6
   \<and> failed (fst (reclaimAllEligible mockEnv demoWorld True)) = 3"
proof -
  have "length (filter (\<lambda>j. JudgmentResult.status j = ELIGIBLE) (batchVerdicts mockEnv demoWorld))
          = length (filter (\<lambda>s. s = ELIGIBLE) (map JudgmentResult.status (batchVerdicts mockEnv demoWorld)))"
    and "length (filter (\<lambda>j. JudgmentResult.status j \<noteq> ELIGIBLE) (batchVerdicts mockEnv demoWorld))
          = length (filter (\<lambda>s. s \<noteq> ELIGIBLE) (map JudgmentResult.status (batchVerdicts mockEnv demoWorld)))"
    by (simp_all add: filter_map comp_def)
  then show ?thesis
    using simulation_batch_counts [OF demoWorld_unique, of mockEnv]
    by (simp add: demoWorld_verdicts demoWorld_eligible_count)
qed

lemma drainedWorld_facts:
  "unique_addresses (prisma drainedWorld)"
  "length (eligibleRows drainedWorld) = 9"
  "map JudgmentResult.status (batchVerdicts mockEnv drainedWorld) =
     [ELIGIBLE, ELIGIBLE, ELIGIBLE, ELIGIBLE, ELIGIBLE, ELIGIBLE, ELIGIBLE, ELIGIBLE, ELIGIBLE]"
  "map JudgmentResult.potentialRecovery (batchVerdicts mockEnv drainedWorld) =
     [203428 / 100000000, 203428 / 100000000, 203428 / 100000000, 203428 / 100000000,
      203428 / 100000000, 203428 / 100000000, 203428 / 100000000, 203428 / 100000000,
      203428 / 100000000]"
proof -
  have s: "getJudgmentSettings (prisma drainedWorld) = \<lparr> minAgeDays = Finite 30, dryRunMode = True \<rparr>"
    using demoWorld_settings
    by (simp add: drainedWorld_def getJudgmentSettings_def findUnique_settings_def)
  have wl: "Store.whitelist (prisma drainedWorld) = []"
    using demoWorld_whitelist by (simp add: drainedWorld_def)
  have t: "tick drainedWorld = 28"
    using demoWorld_tick by (simp add: drainedWorld_def)
  show "unique_addresses (prisma drainedWorld)"
    using demoWorld_unique by (simp add: drainedWorld_def unique_addresses_def comp_def)
  show "length (eligibleRows drainedWorld) = 9"
    by (simp add: eligibleRows_def drainedWorld_def demoWorld_def seedDemoData_def emptyWorld_def
        Let_def create_activityLog_def)
  show "map JudgmentResult.status (batchVerdicts mockEnv drainedWorld) =
     [ELIGIBLE, ELIGIBLE, ELIGIBLE, ELIGIBLE, ELIGIBLE, ELIGIBLE, ELIGIBLE, ELIGIBLE, ELIGIBLE]"
    unfolding batchVerdicts_def s wl t
    by (simp add: eligibleRows_def drainedWorld_def demoWorld_def seedDemoData_def emptyWorld_def
        mockEnv_def create_activityLog_def judgeAccount_def Let_def TX_FEE_SOL_val
        USER_FUND_TOLERANCE_def or_default_def DEFAULT_MIN_AGE_DAYS_def RENT_MINIMUM_def daysAgo_def)
  show "map JudgmentResult.potentialRecovery (batchVerdicts mockEnv drainedWorld) =
     [203428 / 100000000, 203428 / 100000000, 203428 / 100000000, 203428 / 100000000,
      203428 / 100000000, 203428 / 100000000, 203428 / 100000000, 203428 / 100000000,
      203428 / 100000000]"
    unfolding batchVerdicts_def s wl t
    by (simp add: eligibleRows_def drainedWorld_def demoWorld_def seedDemoData_def emptyWorld_def
        mockEnv_def create_activityLog_def judgeAccount_def Let_def TX_FEE_SOL_val
        USER_FUND_TOLERANCE_def or_default_def DEFAULT_MIN_AGE_DAYS_def RENT_MINIMUM_def daysAgo_def)
qed

text \<open>
  C8 (amended): when no two rows of the store share an address and every row whose stored
  status is \<open>ELIGIBLE\<close> (nine of them, in the scenario) is judged \<open>ELIGIBLE\<close> again
  when its turn comes, a batch in simulation mode returns \<open>successful\<close> = the number of
  these rows, \<open>failed = 0\<close> and \<open>totalReclaimed\<close> = the sum of the potential
  recoveries of their verdicts. In either mode and whatever the verdicts are, the batch
  calls \<open>reclaimAccount\<close> once for each of these rows, in the order of the table, and
  \<open>successful + failed = total\<close> = their number: no failure ends the batch early.
\<close>

theorem reclaimAllEligible_simulation:
  "(unique_addresses (prisma w)
      \<and> (\<forall>j \<in> set (batchVerdicts env w). JudgmentResult.status j = ELIGIBLE) \<longrightarrow>
        successful (fst (reclaimAllEligible env w True)) = length (eligibleRows w)
      \<and> failed (fst (reclaimAllEligible env w True)) = 0
      \<and> totalReclaimed (fst (reclaimAllEligible env w True))
          = sum_list (map JudgmentResult.potentialRecovery (batchVerdicts env w)))
   \<and> BatchReclaimResult.total (fst (reclaimAllEligible env w dryRun)) = length (eligibleRows w)
   \<and> map ReclaimResult.address (results (fst (reclaimAllEligible env w dryRun)))
       = map AccountForJudgment.address (eligibleRows w)
   \<and> successful (fst (reclaimAllEligible env w dryRun))
       + failed (fst (reclaimAllEligible env w dryRun)) = length (eligibleRows w)"
proof -
  have len: "length (batchVerdicts env w) = length (eligibleRows w)" for env
  proof -
    have "length (verdicts_from env S W t xs) = length xs" for S W t xs
      by (induction xs arbitrary: t) simp_all
    then show ?thesis by (simp add: batchVerdicts_def)
  qed
  have sim: "successful (fst (reclaimAllEligible env w True)) = length (eligibleRows w)
      \<and> failed (fst (reclaimAllEligible env w True)) = 0
      \<and> totalReclaimed (fst (reclaimAllEligible env w True))
          = sum_list (map JudgmentResult.potentialRecovery (batchVerdicts env w))"
    if u: "unique_addresses (prisma w)"
      and e: "\<forall>j \<in> set (batchVerdicts env w). JudgmentResult.status j = ELIGIBLE"
  proof -
    from e have "filter (\<lambda>j. JudgmentResult.status j = ELIGIBLE) (batchVerdicts env w)
                   = batchVerdicts env w"
      and "filter (\<lambda>j. JudgmentResult.status j \<noteq> ELIGIBLE) (batchVerdicts env w) = []"
      by (simp_all add: filter_empty_conv)
    with simulation_batch_counts [OF u, of env] len show ?thesis by simp
  qed
  have any: "BatchReclaimResult.total (fst (reclaimAllEligible env w dryRun)) = length (eligibleRows w)
   \<and> map ReclaimResult.address (results (fst (reclaimAllEligible env w dryRun)))
       = map AccountForJudgment.address (eligibleRows w)
   \<and> successful (fst (reclaimAllEligible env w dryRun))
       + failed (fst (reclaimAllEligible env w dryRun)) = length (eligibleRows w)"
    using batch_loop_attempts [of env dryRun "eligibleRows w"]
    by (simp add: reclaimAllEligible_def eligibleRows_def Let_def)
  from sim any show ?thesis by blast
qed

theorem reclaimAllEligible_simulation_witness:
  "unique_addresses (prisma drainedWorld)
   \<and> map JudgmentResult.status (batchVerdicts mockEnv drainedWorld) =
       [ELIGIBLE, ELIGIBLE, ELIGIBLE, ELIGIBLE, ELIGIBLE, ELIGIBLE, ELIGIBLE, ELIGIBLE, ELIGIBLE]
   \<and> length (eligibleRows drainedWorld) = 9
   \<and> successful (fst (reclaimAllEligible mockEnv drainedWorld True)) = 9
   \<and> failed (fst (reclaimAllEligible mockEnv drainedWorld True)) = 0
   \<and> totalReclaimed (fst (reclaimAllEligible mockEnv drainedWorld True)) = 9 * (203428 / 100000000)
   \<and> BatchReclaimResult.total (fst (reclaimAllEligible mockEnv drainedWorld True)) = 9
   \<and> length (results (fst (reclaimAllEligible mockEnv drainedWorld True))) = 9"
proof -
  have "\<forall>s \<in> set (map JudgmentResult.status (batchVerdicts mockEnv drainedWorld)). s = ELIGIBLE"
    unfolding drainedWorld_facts(3) by simp
  then have all: "\<forall>j \<in> set (batchVerdicts mockEnv drainedWorld). JudgmentResult.status j = ELIGIBLE"
    by simp
  have "length (map ReclaimResult.address (results (fst (reclaimAllEligible mockEnv drainedWorld True))))
        = length (map AccountForJudgment.address (eligibleRows drainedWorld))"
    using reclaimAllEligible_simulation [of drainedWorld mockEnv True] by simp
  then have "length (results (fst (reclaimAllEligible mockEnv drainedWorld True))) = 9"
    by (simp add: drainedWorld_facts(2))
  then show ?thesis
    using reclaimAllEligible_simulation [of drainedWorld mockEnv True] all
    by (simp add: drainedWorld_facts)
qed


section \<open>The status RECLAIMED\<close>

subsection \<open>Operations that keep it\<close>

text \<open>
  \<open>reclaimAccount\<close>, \<open>reclaimAllEligible\<close> and the reconciliation of the Scanner only
  ever write \<open>RECLAIMED\<close> or the status a row already has; \<open>getEligibleAccounts\<close>
  leaves the store as it is; \<open>judgeAllAccounts\<close> writes the status of the rows it has
  selected, none of which is \<open>RECLAIMED\<close>, and with unique addresses it writes to
  those rows only.
\<close>

lemma keeps_reclaimed_refl: "keeps_reclaimed rows rows"
  by (simp add: keeps_reclaimed_def)

lemma keeps_reclaimed_trans:
  "keeps_reclaimed xs ys \<Longrightarrow> keeps_reclaimed ys zs \<Longrightarrow> keeps_reclaimed xs zs"
  by (auto simp: keeps_reclaimed_def)

lemma keeps_reclaimed_Cons:
  "AccountForJudgment.address r' = AccountForJudgment.address r \<Longrightarrow>
   (AccountForJudgment.status r = ''RECLAIMED'' \<longrightarrow> AccountForJudgment.status r' = ''RECLAIMED'') \<Longrightarrow>
   keeps_reclaimed rows rows' \<Longrightarrow> keeps_reclaimed (r # rows) (r' # rows')"
  by (auto simp: keeps_reclaimed_def nth_Cons split: nat.splits)

lemma keeps_reclaimed_snoc: "keeps_reclaimed rows (rows @ [r])"
  by (simp add: keeps_reclaimed_def nth_append)

lemma keeps_reclaimed_update_first:
  assumes "\<And>ex. find p rows = Some ex \<Longrightarrow>
             AccountForJudgment.address (f ex) = AccountForJudgment.address ex \<and>
             (AccountForJudgment.status ex = ''RECLAIMED'' \<longrightarrow>
              AccountForJudgment.status (f ex) = ''RECLAIMED'')"
  shows "keeps_reclaimed rows (update_first p f rows)"
  using assms
proof (induction rows)
  case Nil
  then show ?case by (simp add: keeps_reclaimed_def)
next
  case (Cons r rows)
  show ?case
  proof (cases "p r")
    case True
    with Cons.prems [of r] show ?thesis
      by (simp add: keeps_reclaimed_Cons keeps_reclaimed_refl)
  next
    case False
    with Cons show ?thesis
      by (simp add: keeps_reclaimed_Cons)
  qed
qed

lemma reclaimAccount_try_keeps_reclaimed:
  "(case reclaimAccount_try env w addr dryRun of
      Inl (e, w') \<Rightarrow> keeps_reclaimed (sponsoredAccount (prisma w)) (sponsoredAccount (prisma w'))
    | Inr (r, w') \<Rightarrow> keeps_reclaimed (sponsoredAccount (prisma w)) (sponsoredAccount (prisma w')))"
  by (simp add: reclaimAccount_try_def Let_def advance_def create_activityLog_def
      update_sponsoredAccount_def keeps_reclaimed_refl keeps_reclaimed_update_first
      split: option.split sum.split)

lemma reclaimAccount_keeps_reclaimed:
  "keeps_reclaimed (sponsoredAccount (prisma w))
     (sponsoredAccount (prisma (snd (reclaimAccount env w addr dryRun))))"
  using reclaimAccount_try_keeps_reclaimed [where env = env and w = w and addr = addr and dryRun = dryRun]
  by (auto simp: reclaimAccount_def create_activityLog_def Let_def split: sum.splits)

lemma reclaimAllEligible_loop_keeps_reclaimed:
  "keeps_reclaimed (sponsoredAccount (prisma w))
     (sponsoredAccount (prisma (snd (fold (reclaimAllEligible_step env dryRun) xs (b, w)))))"
proof (induction xs arbitrary: b w)
  case Nil
  then show ?case by (simp add: keeps_reclaimed_refl)
next
  case (Cons x xs)
  obtain b' where step: "reclaimAllEligible_step env dryRun x (b, w)
      = (b', snd (reclaimAccount env w (AccountForJudgment.address x) dryRun))"
    by (simp add: reclaimAllEligible_step_def Let_def)
  show ?case
    using keeps_reclaimed_trans [OF reclaimAccount_keeps_reclaimed Cons.IH]
    by (simp add: step)
qed

lemma reclaimAllEligible_keeps_reclaimed:
  "keeps_reclaimed (sponsoredAccount (prisma w))
     (sponsoredAccount (prisma (snd (reclaimAllEligible env w dryRun))))"
  by (simp add: reclaimAllEligible_def Let_def reclaimAllEligible_loop_keeps_reclaimed)

lemma getAccountCurrentState_prisma:
  "prisma (snd (getAccountCurrentState env w addr)) = prisma w"
  by (simp add: getAccountCurrentState_def Let_def advance_def split: option.split sum.split)

lemma reconcile_keeps_reclaimed:
  "keeps_reclaimed (sponsoredAccount (prisma w))
     (sponsoredAccount (prisma (snd (reconcile env d (c, w)))))"
proof (cases "findUnique_sponsoredAccount (prisma w) (DiscoveredAccount.address d)")
  case None
  then show ?thesis
    by (simp add: reconcile_def Let_def getAccountCurrentState_prisma advance_def
        create_sponsoredAccount_def keeps_reclaimed_snoc)
next
  case (Some ex)
  have "keeps_reclaimed (sponsoredAccount (prisma w))
          (update_first (\<lambda>row. AccountForJudgment.address row = DiscoveredAccount.address d)
             (\<lambda>row. row\<lparr>AccountForJudgment.balance := b, lastActivity := t,
                          AccountForJudgment.status :=
                            (if z then ''RECLAIMED'' else AccountForJudgment.status ex)\<rparr>)
             (sponsoredAccount (prisma w)))" for b t z
    using Some
    by (intro keeps_reclaimed_update_first) (simp add: findUnique_sponsoredAccount_def)
  with Some show ?thesis
    by (simp add: reconcile_def Let_def getAccountCurrentState_prisma advance_def
        update_sponsoredAccount_def)
qed

lemma reconcileAll_keeps_reclaimed:
  "keeps_reclaimed (sponsoredAccount (prisma w))
     (sponsoredAccount (prisma (snd (reconcileAll env ds w))))"
proof -
  have "keeps_reclaimed (sponsoredAccount (prisma w))
     (sponsoredAccount (prisma (snd (fold (reconcile env) ds (c, w)))))" for c
  proof (induction ds arbitrary: c w)
    case Nil
    then show ?case by (simp add: keeps_reclaimed_refl)
  next
    case (Cons d ds)
    obtain c' w' where step: "reconcile env d (c, w) = (c', w')"
      by (cases "reconcile env d (c, w)")
    have "keeps_reclaimed (sponsoredAccount (prisma w)) (sponsoredAccount (prisma w'))"
      using reconcile_keeps_reclaimed [where w = w and env = env and d = d and c = c]
      by (simp add: step)
    from keeps_reclaimed_trans [OF this Cons.IH [where c = c' and w = w']] show ?case
      by (simp add: step)
  qed
  then show ?thesis by (simp add: reconcileAll_def)
qed

lemma getEligibleAccounts_loop_prisma:
  "prisma (snd (getEligibleAccounts_loop env S W xs (found, w))) = prisma w"
  by (induction xs arbitrary: found w) (simp_all add: Let_def advance_def)

lemma getEligibleAccounts_prisma:
  "prisma (snd (getEligibleAccounts env w)) = prisma w"
  by (simp add: getEligibleAccounts_def Let_def getEligibleAccounts_loop_prisma)


lemma update_first_untouched:
  "i < length rows \<Longrightarrow> \<not> p (rows ! i) \<Longrightarrow> update_first p f rows ! i = rows ! i"
proof (induction rows arbitrary: i)
  case Nil
  then show ?case by simp
next
  case (Cons r rows)
  then show ?case by (cases i) auto
qed

lemma update_first_addresses:
  assumes "\<And>r. AccountForJudgment.address (f r) = AccountForJudgment.address r"
  shows "map AccountForJudgment.address (update_first p f rows)
           = map AccountForJudgment.address rows"
  using assms by (induction rows) auto

lemma judgeAll_loop_keeps:
  assumes "distinct (map AccountForJudgment.address rows0)"
    and "set xs \<subseteq> {x \<in> set rows0. AccountForJudgment.status x \<noteq> ''RECLAIMED''}"
    and "map AccountForJudgment.address (sponsoredAccount (prisma w))
           = map AccountForJudgment.address rows0"
    and "\<forall>i < length rows0. AccountForJudgment.status (rows0 ! i) = ''RECLAIMED'' \<longrightarrow>
           sponsoredAccount (prisma w) ! i = rows0 ! i"
  shows "map AccountForJudgment.address
           (sponsoredAccount (prisma (snd (fold (judgeAllAccounts_step env S W) xs (r, w)))))
           = map AccountForJudgment.address rows0
       \<and> (\<forall>i < length rows0. AccountForJudgment.status (rows0 ! i) = ''RECLAIMED'' \<longrightarrow>
           sponsoredAccount (prisma (snd (fold (judgeAllAccounts_step env S W) xs (r, w)))) ! i
             = rows0 ! i)"
  using assms
proof (induction xs arbitrary: r w)
  case Nil
  then show ?case by simp
next
  case (Cons x xs)
  let ?p = "\<lambda>row. AccountForJudgment.address row = AccountForJudgment.address x"
  obtain r' s where step: "judgeAllAccounts_step env S W x (r, w) =
      (r', (advance w)\<lparr>prisma := update_sponsoredAccount (prisma w) (AccountForJudgment.address x)
              (\<lambda>row. row\<lparr>AccountForJudgment.status := s\<rparr>)\<rparr>)"
    by (simp add: judgeAllAccounts_step_def Let_def advance_def)
  let ?w' = "(advance w)\<lparr>prisma := update_sponsoredAccount (prisma w) (AccountForJudgment.address x)
              (\<lambda>row. row\<lparr>AccountForJudgment.status := s\<rparr>)\<rparr>"
  have rows': "sponsoredAccount (prisma ?w')
      = update_first ?p (\<lambda>row. row\<lparr>AccountForJudgment.status := s\<rparr>) (sponsoredAccount (prisma w))"
    by (simp add: update_sponsoredAccount_def advance_def)
  have len: "length (sponsoredAccount (prisma w)) = length rows0"
    using Cons.prems(3) by (metis length_map)
  have addr': "map AccountForJudgment.address (sponsoredAccount (prisma ?w'))
           = map AccountForJudgment.address rows0"
    unfolding rows' using Cons.prems(3) by (simp add: update_first_addresses)
  have keep': "\<forall>i < length rows0. AccountForJudgment.status (rows0 ! i) = ''RECLAIMED'' \<longrightarrow>
           sponsoredAccount (prisma ?w') ! i = rows0 ! i"
  proof (intro allI impI)
    fix i assume i: "i < length rows0"
      and st: "AccountForJudgment.status (rows0 ! i) = ''RECLAIMED''"
    from Cons.prems(2) obtain k where k: "k < length rows0" "rows0 ! k = x"
      and xs: "AccountForJudgment.status x \<noteq> ''RECLAIMED''"
      by (auto simp: in_set_conv_nth)
    with st have "k \<noteq> i" by auto
    with Cons.prems(1) i k have "AccountForJudgment.address (rows0 ! i) \<noteq> AccountForJudgment.address x"
      by (metis distinct_conv_nth length_map nth_map)
    moreover have same: "sponsoredAccount (prisma w) ! i = rows0 ! i"
      using Cons.prems(4) i st by simp
    ultimately have "\<not> ?p (sponsoredAccount (prisma w) ! i)" by simp
    with i len have "update_first ?p (\<lambda>row. row\<lparr>AccountForJudgment.status := s\<rparr>)
        (sponsoredAccount (prisma w)) ! i = sponsoredAccount (prisma w) ! i"
      by (simp add: update_first_untouched)
    with same show "sponsoredAccount (prisma ?w') ! i = rows0 ! i"
      unfolding rows' by simp
  qed
  have sub: "set xs \<subseteq> {x \<in> set rows0. AccountForJudgment.status x \<noteq> ''RECLAIMED''}"
    using Cons.prems(2) by auto
  from Cons.IH [OF Cons.prems(1) sub addr' keep', where r = r'] show ?case
    by (simp add: step)
qed

lemma judgeAllAccounts_keeps_reclaimed:
  assumes "unique_addresses (prisma w)"
  shows "keeps_reclaimed (sponsoredAccount (prisma w))
           (sponsoredAccount (prisma (snd (judgeAllAccounts env w))))"
proof -
  let ?rows = "sponsoredAccount (prisma w)"
  let ?rows' = "sponsoredAccount (prisma (snd (judgeAllAccounts env w)))"
  have "map AccountForJudgment.address ?rows' = map AccountForJudgment.address ?rows
       \<and> (\<forall>i < length ?rows. AccountForJudgment.status (?rows ! i) = ''RECLAIMED'' \<longrightarrow>
             ?rows' ! i = ?rows ! i)"
    unfolding judgeAllAccounts_def Let_def
    using assms by (intro judgeAll_loop_keeps) (auto simp: unique_addresses_def)
  then have "length ?rows' = length ?rows"
    and "\<forall>i < length ?rows. AccountForJudgment.address (?rows' ! i) = AccountForJudgment.address (?rows ! i)"
    and "\<forall>i < length ?rows. AccountForJudgment.status (?rows ! i) = ''RECLAIMED'' \<longrightarrow>
             ?rows' ! i = ?rows ! i"
    by (metis length_map, metis length_map nth_map, blast)
  then show ?thesis
    by (simp add: keeps_reclaimed_def)
qed


subsection \<open>The operation that does not\<close>

lemma judgeAll_loop_total:
  "JudgeAllResult.total (fst (fold (judgeAllAccounts_step env S W) xs (r, w)))
     = JudgeAllResult.total r"
proof (induction xs arbitrary: r w)
  case Nil
  then show ?case by simp
next
  case (Cons x xs)
  obtain r' w' where step: "judgeAllAccounts_step env S W x (r, w) = (r', w')"
    by (cases "judgeAllAccounts_step env S W x (r, w)")
  then have "JudgeAllResult.total r' = JudgeAllResult.total r"
    by (auto simp: judgeAllAccounts_step_def Let_def split: JudgmentStatus.splits)
  with Cons.IH [of r' w'] show ?case by (simp add: step)
qed

lemma judgeAllAccounts_total:
  "JudgeAllResult.total (fst (judgeAllAccounts env w))
     = length (filter (\<lambda>row. AccountForJudgment.status row \<noteq> ''RECLAIMED'')
                (sponsoredAccount (prisma w)))"
  by (simp add: judgeAllAccounts_def Let_def judgeAll_loop_total)

lemma find_map_update:
  assumes "\<And>r. p r \<Longrightarrow> p (f r)"
  shows "find p (map (\<lambda>r. if p r then f r else r) rows) = map_option f (find p rows)"
  using assms by (induction rows) auto

lemma addToWhitelist_status:
  "findUnique_sponsoredAccount (prisma (addToWhitelist w addr n)) addr
     = map_option (\<lambda>row. row\<lparr>AccountForJudgment.status := ''WHITELISTED''\<rparr>)
         (findUnique_sponsoredAccount (prisma w) addr)"
proof -
  have "sponsoredAccount (upsert_whitelist db addr n) = sponsoredAccount db" for db
    by (simp add: upsert_whitelist_def)
  then show ?thesis
    by (simp add: addToWhitelist_def Let_def updateMany_sponsoredAccount_def
        findUnique_sponsoredAccount_def find_map_update)
qed

lemma demoWorld_find_reclaimed:
  "map_option AccountForJudgment.status
     (findUnique_sponsoredAccount (prisma demoWorld) ''RcL1xxxxxxxxxxxxxxxxxxxxxxxxxxxxxxRclm01'')
     = Some ''RECLAIMED''"
  by (simp add: findUnique_sponsoredAccount_def demoWorld_def seedDemoData_def emptyWorld_def
      Let_def create_activityLog_def)

lemma addToWhitelist_statuses:
  "map AccountForJudgment.status (sponsoredAccount (prisma (addToWhitelist w addr n)))
     = map2 (\<lambda>a s. if a = addr then ''WHITELISTED'' else s)
         (map AccountForJudgment.address (sponsoredAccount (prisma w)))
         (map AccountForJudgment.status (sponsoredAccount (prisma w)))"
proof -
  have "sponsoredAccount (upsert_whitelist db addr n) = sponsoredAccount db" for db
    by (simp add: upsert_whitelist_def)
  moreover have "map AccountForJudgment.status
      (map (\<lambda>row. if AccountForJudgment.address row = addr
                  then row\<lparr>AccountForJudgment.status := ''WHITELISTED''\<rparr> else row) rows)
     = map2 (\<lambda>a s. if a = addr then ''WHITELISTED'' else s)
         (map AccountForJudgment.address rows) (map AccountForJudgment.status rows)" for rows
    by (induction rows) simp_all
  ultimately show ?thesis
    by (simp add: addToWhitelist_def Let_def updateMany_sponsoredAccount_def)
qed

lemma count_by_status:
  "length (filter (\<lambda>row. AccountForJudgment.status row \<noteq> s) rows)
     = length (filter (\<lambda>x. x \<noteq> s) (map AccountForJudgment.status rows))"
  by (simp add: filter_map comp_def)

text \<open>
  C3: no operation changes a stored status \<open>RECLAIMED\<close> or lets the account into Judge
  evaluation again. \<open>addToWhitelist\<close> does both: the demo data hold one \<open>RECLAIMED\<close>
  row; after \<open>addToWhitelist\<close> for its address the stored status is \<open>WHITELISTED\<close>,
  and \<open>judgeAllAccounts\<close> then evaluates fourteen rows where it evaluated thirteen.
\<close>

theorem addToWhitelist_reverts_reclaimed:
  "map_option AccountForJudgment.status
     (findUnique_sponsoredAccount (prisma demoWorld) ''RcL1xxxxxxxxxxxxxxxxxxxxxxxxxxxxxxRclm01'')
     = Some ''RECLAIMED''
   \<and> map_option AccountForJudgment.status
     (findUnique_sponsoredAccount
        (prisma (addToWhitelist demoWorld ''RcL1xxxxxxxxxxxxxxxxxxxxxxxxxxxxxxRclm01'' None))
        ''RcL1xxxxxxxxxxxxxxxxxxxxxxxxxxxxxxRclm01'')
     = Some ''WHITELISTED''
   \<and> JudgeAllResult.total (fst (judgeAllAccounts mockEnv demoWorld)) = 13
   \<and> JudgeAllResult.total (fst (judgeAllAccounts mockEnv
        (addToWhitelist demoWorld ''RcL1xxxxxxxxxxxxxxxxxxxxxxxxxxxxxxRclm01'' None))) = 14"
proof -
  have before: "map_option AccountForJudgment.status
     (findUnique_sponsoredAccount (prisma demoWorld) ''RcL1xxxxxxxxxxxxxxxxxxxxxxxxxxxxxxRclm01'')
     = Some ''RECLAIMED''"
    by (rule demoWorld_find_reclaimed)
  then have after: "map_option AccountForJudgment.status
     (findUnique_sponsoredAccount
        (prisma (addToWhitelist demoWorld ''RcL1xxxxxxxxxxxxxxxxxxxxxxxxxxxxxxRclm01'' None))
        ''RcL1xxxxxxxxxxxxxxxxxxxxxxxxxxxxxxRclm01'')
     = Some ''WHITELISTED''"
    by (auto simp: addToWhitelist_status)
  have n13: "JudgeAllResult.total (fst (judgeAllAccounts mockEnv demoWorld)) = 13"
    by (simp add: judgeAllAccounts_total count_by_status demoWorld_statuses)
  have n14: "JudgeAllResult.total (fst (judgeAllAccounts mockEnv
        (addToWhitelist demoWorld ''RcL1xxxxxxxxxxxxxxxxxxxxxxxxxxxxxxRclm01'' None))) = 14"
    by (simp add: judgeAllAccounts_total count_by_status addToWhitelist_statuses
        demoWorld_statuses demoWorld_addresses)
  from before after n13 n14 show ?thesis by simp
qed


section \<open>Properties of the Scanner\<close>

lemma find_update_first_same:
  assumes "find p rows = Some ex" and "p (f ex)"
  shows "find p (update_first p f rows) = Some (f ex)"
  using assms by (induction rows) (auto split: if_splits)

lemma find_update_first_other:
  assumes "\<And>r. p r \<Longrightarrow> \<not> q r \<and> \<not> q (f r)"
  shows "find q (update_first p f rows) = find q rows"
  using assms by (induction rows) auto

lemma find_snoc:
  "find q (rows @ [r]) = (case find q rows of Some x \<Rightarrow> Some x | None \<Rightarrow> if q r then Some r else None)"
  by (induction rows) auto

lemma length_update_first: "length (update_first p f rows) = length rows"
  by (induction rows) auto

lemma getAccountCurrentState_frame:
  "prisma (snd (getAccountCurrentState env w addr)) = prisma w
   \<and> submitted (snd (getAccountCurrentState env w addr)) = submitted w"
  by (simp add: getAccountCurrentState_def Let_def advance_def
      split: option.split sum.split)

lemma getAccountCurrentState_range:
  "0 \<le> CurrentState.balance (fst (getAccountCurrentState env w addr))
   \<and> 0 \<le> CurrentState.rentExemptMin (fst (getAccountCurrentState env w addr))
   \<and> (exists (fst (getAccountCurrentState env w addr))
       \<or> CurrentState.balance (fst (getAccountCurrentState env w addr)) = 0)"
  by (simp add: getAccountCurrentState_def Let_def DEFAULT_RENT_EXEMPT_MINIMUM_def
      LAMPORTS_PER_SOL_def split: option.split sum.split)

text \<open>
  What the Scanner observes at a public key: the answer of the node when both of its
  calls return, and a closed account as soon as one of them throws.
\<close>

lemma observedState_answered:
  assumes "newPublicKey env (DiscoveredAccount.address d) = None"
    and "getAccountInfo env (tick w) (DiscoveredAccount.address d) = Inr (Some info)"
    and "getMinimumBalanceForRentExemption env (Suc (tick w)) (dataLength info) = Inr r"
  shows "observedState env w d =
     \<lparr> CurrentState.balance = real (AccountInfo.lamports info) / 1000000000,
       rentExemptMin = real r / 1000000000,
       exists = True \<rparr>"
  using assms
  by (simp add: observedState_def getAccountCurrentState_def Let_def advance_def
      LAMPORTS_PER_SOL_def)

lemma observedState_rent_lookup_throws:
  assumes "newPublicKey env (DiscoveredAccount.address d) = None"
    and "getAccountInfo env (tick w) (DiscoveredAccount.address d) = Inr (Some info)"
    and "getMinimumBalanceForRentExemption env (Suc (tick w)) (dataLength info) = Inl e"
  shows "observedState env w d =
     \<lparr> CurrentState.balance = 0,
       rentExemptMin = DEFAULT_RENT_EXEMPT_MINIMUM,
       exists = False \<rparr>"
  using assms
  by (simp add: observedState_def getAccountCurrentState_def Let_def advance_def)

lemma observedState_account_lookup_throws:
  assumes "getAccountInfo env (tick w) (DiscoveredAccount.address d) = Inl e"
  shows "observedState env w d =
     \<lparr> CurrentState.balance = 0,
       rentExemptMin = DEFAULT_RENT_EXEMPT_MINIMUM,
       exists = False \<rparr>"
  using assms
  by (simp add: observedState_def getAccountCurrentState_def Let_def advance_def
      split: option.split)

lemma nodeEnv_answers:
  "newPublicKey (nodeEnv n) = new_PublicKey"
  "0 < n \<Longrightarrow> getAccountInfo (nodeEnv n) t a
               = Inr (Some \<lparr> AccountInfo.lamports = n, dataLength = 165 \<rparr>)"
  "getMinimumBalanceForRentExemption (nodeEnv n) t l = Inr 2039280"
  by (simp_all add: nodeEnv_def mockEnv_def)

lemma flakyEnv_answers:
  "newPublicKey (flakyEnv n) = new_PublicKey"
  "0 < n \<Longrightarrow> getAccountInfo (flakyEnv n) t a
               = Inr (Some \<lparr> AccountInfo.lamports = n, dataLength = 165 \<rparr>)"
  "getBalance (flakyEnv n) t a = Inr n"
  "getMinimumBalanceForRentExemption (flakyEnv n) t l = Inl (Error ''429 Too Many Requests'')"
  by (simp_all add: flakyEnv_def nodeEnv_def mockEnv_def)

lemma observedState_nodeEnv:
  "observedState (nodeEnv 2039280) ledgerWorld discoveredA =
     \<lparr> CurrentState.balance = 203928 / 100000000,
       rentExemptMin = 203928 / 100000000,
       exists = True \<rparr>"
  using observedState_answered [of "nodeEnv 2039280" discoveredA ledgerWorld
      "\<lparr> AccountInfo.lamports = 2039280, dataLength = 165 \<rparr>" 2039280]
  by (simp add: nodeEnv_answers discoveredA_def accountA_is_public_key)

lemma observedState_flakyEnv:
  "observedState (flakyEnv 2039280) ledgerWorld discoveredA =
     \<lparr> CurrentState.balance = 0,
       rentExemptMin = DEFAULT_RENT_EXEMPT_MINIMUM,
       exists = False \<rparr>"
  "observedState (flakyEnv 2039280) ledgerWorld discoveredB =
     \<lparr> CurrentState.balance = 0,
       rentExemptMin = DEFAULT_RENT_EXEMPT_MINIMUM,
       exists = False \<rparr>"
  using observedState_rent_lookup_throws [of "flakyEnv 2039280" discoveredA ledgerWorld
      "\<lparr> AccountInfo.lamports = 2039280, dataLength = 165 \<rparr>"
      "Error ''429 Too Many Requests''"]
    observedState_rent_lookup_throws [of "flakyEnv 2039280" discoveredB ledgerWorld
      "\<lparr> AccountInfo.lamports = 2039280, dataLength = 165 \<rparr>"
      "Error ''429 Too Many Requests''"]
  by (simp_all add: flakyEnv_answers discoveredA_def discoveredB_def accountA_is_public_key
      accountB_is_public_key)

text \<open>
  What one reconciliation does to the account table, read through \<open>findUnique\<close>. Rows
  of other addresses are as before. If the discovered address has a row, that row keeps
  every field except balance, last activity and status; the balance is the observed one,
  the last activity is the time of the update, and the status is the old one unless the
  observed balance is exactly zero, when it is \<open>RECLAIMED\<close>; the table keeps its length
  and \<open>updatedCount\<close> grows by one. If it has none, one row is added: \<open>RECLAIMED\<close>
  when the observed account is absent or its balance is zero, else \<open>PROTECTED\<close> when
  the balance exceeds 1.5 times the rent floor, else \<open>ACTIVE\<close>; and \<open>newCount\<close>
  grows by one.
\<close>

lemma reconcile_lookup:
  "findUnique_sponsoredAccount (prisma (snd (reconcile env d (c, w)))) a =
     (if a = DiscoveredAccount.address d then
        Some (case findUnique_sponsoredAccount (prisma w) (DiscoveredAccount.address d) of
                Some ex \<Rightarrow>
                  ex\<lparr>AccountForJudgment.balance := CurrentState.balance (observedState env w d),
                     lastActivity := observedAt env w d,
                     AccountForJudgment.status :=
                       (if CurrentState.balance (observedState env w d) = 0 then ''RECLAIMED''
                        else AccountForJudgment.status ex)\<rparr>
              | None \<Rightarrow>
                  \<lparr> AccountForJudgment.address = DiscoveredAccount.address d,
                    balance = CurrentState.balance (observedState env w d),
                    rentExemptMin = CurrentState.rentExemptMin (observedState env w d),
                    lastActivity = createdAt d,
                    status =
                      (if \<not> exists (observedState env w d)
                          \<or> CurrentState.balance (observedState env w d) = 0 then ''RECLAIMED''
                       else if CurrentState.balance (observedState env w d)
                               > CurrentState.rentExemptMin (observedState env w d) * (15 / 10)
                         then ''PROTECTED''
                       else ''ACTIVE''),
                    detectedAt = observedAt env w d \<rparr>)
      else findUnique_sponsoredAccount (prisma w) a)
   \<and> length (sponsoredAccount (prisma (snd (reconcile env d (c, w))))) =
       (case findUnique_sponsoredAccount (prisma w) (DiscoveredAccount.address d) of
          Some ex \<Rightarrow> length (sponsoredAccount (prisma w))
        | None \<Rightarrow> Suc (length (sponsoredAccount (prisma w))))
   \<and> fst (reconcile env d (c, w)) =
       (case findUnique_sponsoredAccount (prisma w) (DiscoveredAccount.address d) of
          Some ex \<Rightarrow> (fst c, snd c + 1)
        | None \<Rightarrow> (fst c + 1, snd c))"
proof (cases "findUnique_sponsoredAccount (prisma w) (DiscoveredAccount.address d)")
  case None
  then show ?thesis
    using getAccountCurrentState_frame [of env w "DiscoveredAccount.address d"]
    by (simp add: reconcile_def Let_def observedState_def observedAt_def advance_def
        create_sponsoredAccount_def determineInitialStatus_def findUnique_sponsoredAccount_def
        find_snoc split: option.split)
next
  case (Some ex)
  have other: "find (\<lambda>row. AccountForJudgment.address row = a)
         (update_first (\<lambda>row. AccountForJudgment.address row = DiscoveredAccount.address d) f
            (sponsoredAccount (prisma w)))
       = find (\<lambda>row. AccountForJudgment.address row = a) (sponsoredAccount (prisma w))"
    if "a \<noteq> DiscoveredAccount.address d"
      and "\<And>r. AccountForJudgment.address (f r) = AccountForJudgment.address r" for f
    using that by (intro find_update_first_other) auto
  from Some have ex_addr: "AccountForJudgment.address ex = DiscoveredAccount.address d"
    by (auto simp: findUnique_sponsoredAccount_def find_Some_iff)
  show ?thesis
    using Some getAccountCurrentState_frame [of env w "DiscoveredAccount.address d"] ex_addr
    by (simp add: reconcile_def Let_def observedState_def observedAt_def advance_def
        update_sponsoredAccount_def findUnique_sponsoredAccount_def
        find_update_first_same other length_update_first)
qed

text \<open>
  C9: the Scanner preserves the status of an existing record unless the current
  on-ledger balance is exactly zero, and creates a record as \<open>RECLAIMED\<close> only for a
  zero or absent balance. The code does not do this when a call of the gateway throws
  during the look-up of the current state. The account at the public key \<open>accountA\<close>
  holds 2039280 lamports, which the node reports both to \<open>getAccountInfo\<close> and to
  \<open>getBalance\<close>, and its record is stored as \<open>ELIGIBLE\<close>; the node refuses the
  rent look-up that follows. Then the reconciliation stores the record as \<open>RECLAIMED\<close>
  with balance 0, and an account without a record, at the public key \<open>accountB\<close> and
  holding the same lamports, gets a record created as \<open>RECLAIMED\<close> with balance 0.
  When the rent look-up answers, the record of the first account stays \<open>ELIGIBLE\<close>
  with the balance of the ledger.
\<close>

theorem reconcile_gateway_failure_reclaims:
  "new_PublicKey accountA = None \<and> new_PublicKey accountB = None
   \<and> getAccountInfo (flakyEnv 2039280) (tick ledgerWorld) accountA
       = Inr (Some \<lparr> AccountInfo.lamports = 2039280, dataLength = 165 \<rparr>)
   \<and> getBalance (flakyEnv 2039280) (tick ledgerWorld) accountA = Inr 2039280
   \<and> map_option AccountForJudgment.status
       (findUnique_sponsoredAccount (prisma ledgerWorld) accountA) = Some ''ELIGIBLE''
   \<and> map_option AccountForJudgment.status (findUnique_sponsoredAccount
       (prisma (snd (reconcile (flakyEnv 2039280) discoveredA ((0, 0), ledgerWorld))))
       accountA) = Some ''RECLAIMED''
   \<and> map_option AccountForJudgment.balance (findUnique_sponsoredAccount
       (prisma (snd (reconcile (flakyEnv 2039280) discoveredA ((0, 0), ledgerWorld))))
       accountA) = Some 0
   \<and> fst (reconcile (flakyEnv 2039280) discoveredA ((0, 0), ledgerWorld)) = (0, 1)
   \<and> findUnique_sponsoredAccount (prisma ledgerWorld) accountB = None
   \<and> map_option AccountForJudgment.status (findUnique_sponsoredAccount
       (prisma (snd (reconcile (flakyEnv 2039280) discoveredB ((0, 0), ledgerWorld))))
       accountB) = Some ''RECLAIMED''
   \<and> map_option AccountForJudgment.balance (findUnique_sponsoredAccount
       (prisma (snd (reconcile (flakyEnv 2039280) discoveredB ((0, 0), ledgerWorld))))
       accountB) = Some 0
   \<and> fst (reconcile (flakyEnv 2039280) discoveredB ((0, 0), ledgerWorld)) = (1, 0)
   \<and> map_option AccountForJudgment.status (findUnique_sponsoredAccount
       (prisma (snd (reconcile (nodeEnv 2039280) discoveredA ((0, 0), ledgerWorld))))
       accountA) = Some ''ELIGIBLE''
   \<and> map_option AccountForJudgment.balance (findUnique_sponsoredAccount
       (prisma (snd (reconcile (nodeEnv 2039280) discoveredA ((0, 0), ledgerWorld))))
       accountA) = Some (203928 / 100000000)"
  using
    reconcile_lookup [of "flakyEnv 2039280" discoveredA "(0, 0)" ledgerWorld accountA]
    reconcile_lookup [of "flakyEnv 2039280" discoveredB "(0, 0)" ledgerWorld accountB]
    reconcile_lookup [of "nodeEnv 2039280" discoveredA "(0, 0)" ledgerWorld accountA]
  by (simp add: discoveredA_def [THEN arg_cong, of DiscoveredAccount.address]
      discoveredB_def [THEN arg_cong, of DiscoveredAccount.address]
      ledgerWorld_find observedState_flakyEnv observedState_nodeEnv flakyEnv_answers
      accountA_is_public_key accountB_is_public_key)


end
